theory Spec2Isabelle
  imports Main "HOL-Library.Word"
begin

section \<open>Values shared by the services\<close>

text \<open>
  A JavaScript \<^verbatim>\<open>throw\<close> carries any value. The pipeline only asks whether the value is
  an \<^verbatim>\<open>Error\<close> instance and, if so, reads its message.
\<close>

datatype thrown = ErrorObj string | NonError

text \<open>\<^verbatim>\<open>error instanceof Error ? error.message : 'Unknown error'\<close>\<close>

fun error_message :: "thrown \<Rightarrow> string" where
  "error_message (ErrorObj message) = message"
| "error_message NonError = ''Unknown error''"

text \<open>
  JavaScript values, as far as the contract record and the HTTP bodies need them. Numbers are
  integers here and a \<^verbatim>\<open>Date\<close> is its timestamp. \<^verbatim>\<open>undefined\<close> is not among them: a
  property or variable that may be \<^verbatim>\<open>undefined\<close> has an option type.
\<close>

datatype json =
    JNull
  | JBool bool
  | JNum int
  | JStr string
  | JArr "json list"
  | JObj "(string \<times> json) list"

type_synonym byte = "8 word"

section \<open>PDFService.isValidPDF\<close>

text \<open>
  \<^verbatim>\<open>dataBuffer.toString('utf-8', start, end)\<close>. Every byte below 128 decodes to the character
  with that code; a byte from 128 on never decodes to an ASCII character, which is all the
  comparison with the magic number depends on, so bytes are mapped to characters one to one.
\<close>

definition toString :: "byte list \<Rightarrow> nat \<Rightarrow> nat \<Rightarrow> string" where
  "toString dataBuffer start end =
     map (\<lambda>b. char_of (unat b)) (take (end - start) (drop start dataBuffer))"

text \<open>
  The file system answers \<^verbatim>\<open>fs.readFile(filePath)\<close> with the bytes of the file or rejects.
\<close>

type_synonym filesystem = "string \<Rightarrow> thrown + byte list"

definition readFile :: "filesystem \<Rightarrow> string \<Rightarrow> thrown + byte list" where
  "readFile fs filePath = fs filePath"

text \<open>
  The body of \<^verbatim>\<open>isValidPDF\<close> once the read has settled: the \<^verbatim>\<open>try\<close> branch compares the
  header, the \<^verbatim>\<open>catch\<close> branch logs and returns false. The result type keeps a place for an
  exception leaving the function.
\<close>

definition isValidPDF_settled :: "thrown + byte list \<Rightarrow> thrown + bool" where
  "isValidPDF_settled r =
     (case r of
        Inr dataBuffer \<Rightarrow> Inr (toString dataBuffer 0 5 = ''%PDF-'')
      | Inl error \<Rightarrow> Inr False)"

definition isValidPDF :: "filesystem \<Rightarrow> string \<Rightarrow> thrown + bool" where
  "isValidPDF fs filePath = isValidPDF_settled (readFile fs filePath)"

definition pdf_magic :: "byte list" where
  "pdf_magic = [0x25, 0x50, 0x44, 0x46, 0x2D]"

section \<open>ProcessorService: the job registry\<close>

datatype status = Pending | Processing | Completed | Failed

record job =
  job_id :: string
  filename :: string
  status :: status
  createdAt :: nat
  completedAt :: "nat option"
  error :: "string option"
  contractData :: "json option"
  confluencePageUrl :: "string option"
  targetConfluenceUrl :: "string option"

text \<open>
  A JavaScript \<^verbatim>\<open>Map\<close> keeps its keys in insertion order; \<^verbatim>\<open>set\<close> on a key already there
  replaces the value in place.
\<close>

fun map_set :: "string \<Rightarrow> 'v \<Rightarrow> (string \<times> 'v) list \<Rightarrow> (string \<times> 'v) list" where
  "map_set k v [] = [(k, v)]"
| "map_set k v ((k', v') # m) = (if k = k' then (k, v) # m else (k', v') # map_set k v m)"

definition map_get :: "(string \<times> 'v) list \<Rightarrow> string \<Rightarrow> 'v option" where
  "map_get m k = map_of m k"

definition map_values :: "(string \<times> 'v) list \<Rightarrow> 'v list" where
  "map_values m = map snd m"

text \<open>
  The calls a background task makes on the collaborators, with their arguments. The read of
  the upload is the one that \<^verbatim>\<open>isValidPDF\<close> makes.
\<close>

datatype call =
    CallReadFile string
  | CallExtractText string
  | CallExtractContractData string
  | CallCreateContractPage json "string option"
  | CallUnlink string

text \<open>
  \<^verbatim>\<open>executeProcessing\<close> is an \<^verbatim>\<open>async\<close> function: it runs until an \<^verbatim>\<open>await\<close>, is
  suspended, and continues when the awaited promise settles. Between two suspensions nothing
  else runs (one event loop), so each stretch is one atomic transition. The program counter
  names the \<^verbatim>\<open>await\<close> a task is suspended at, with the local variables still needed.
\<close>

datatype pc =
    AwaitIsValidPDF
  | AwaitExtractText
  | AwaitExtractContractData
  | AwaitCreateContractPage json
  | AwaitUnlink
  | Returned

text \<open>How an awaited promise settled: \<^verbatim>\<open>Inl\<close> rejected, \<^verbatim>\<open>Inr\<close> fulfilled.\<close>

datatype settled =
    ReadFileSettled "thrown + byte list"
  | ExtractTextSettled "thrown + string"
  | ExtractContractDataSettled "thrown + json"
  | CreateContractPageSettled "thrown + string"
  | UnlinkSettled "thrown + unit"

text \<open>
  A task holds the closure of one \<^verbatim>\<open>executeProcessing\<close> call: its arguments, the reference
  to the job object it fetched from the map, where it is suspended, and a log of the calls it
  issued.
\<close>

record task =
  t_jobId :: string
  t_filePath :: string
  t_job :: nat
  t_pc :: pc
  t_calls :: "call list"

text \<open>
  Job objects live in a store and are referred to by their index; the map \<^verbatim>\<open>this.jobs\<close> and
  the tasks hold references, as in the source, where the task mutates the object the map
  points to.
\<close>

record state =
  objects :: "job list"
  jobs :: "(string \<times> nat) list"
  tasks :: "task list"

definition init :: state where
  "init = \<lparr>objects = [], jobs = [], tasks = []\<rparr>"

text \<open>The outcome of one stretch of a task: the job object, whether
  \<^verbatim>\<open>this.jobs.set(jobId, job)\<close> ran, the next suspension point and the calls issued.\<close>

record outcome =
  o_job :: job
  o_set :: bool
  o_pc :: pc
  o_calls :: "call list"

text \<open>The \<^verbatim>\<open>catch\<close> block of \<^verbatim>\<open>executeProcessing\<close>, up to its \<^verbatim>\<open>await fs.unlink\<close>.\<close>

definition on_catch :: "nat \<Rightarrow> string \<Rightarrow> thrown \<Rightarrow> job \<Rightarrow> outcome" where
  "on_catch now filePath err j =
     \<lparr>o_job = j\<lparr>status := Failed, completedAt := Some now, error := Some (error_message err)\<rparr>,
      o_set = True, o_pc = AwaitUnlink, o_calls = [CallUnlink filePath]\<rparr>"

text \<open>
  The \<^verbatim>\<open>try\<close> block, one equation for each \<^verbatim>\<open>await\<close>: what runs from the moment the promise
  settles to the next suspension. A rejected promise throws at the \<^verbatim>\<open>await\<close> and control
  goes to the \<^verbatim>\<open>catch\<close> block. A settlement that is not the one awaited cannot happen and is
  \<open>None\<close>.
\<close>

fun resume :: "nat \<Rightarrow> string \<Rightarrow> pc \<Rightarrow> settled \<Rightarrow> job \<Rightarrow> outcome option" where
  "resume now filePath AwaitIsValidPDF (ReadFileSettled r) j =
     Some (case isValidPDF_settled r of
        Inl err \<Rightarrow> on_catch now filePath err j
      | Inr isValid \<Rightarrow>
          if \<not> isValid then on_catch now filePath (ErrorObj ''Invalid PDF file'') j
          else \<lparr>o_job = j, o_set = False, o_pc = AwaitExtractText,
                o_calls = [CallExtractText filePath]\<rparr>)"
| "resume now filePath AwaitExtractText (ExtractTextSettled r) j =
     Some (case r of
        Inl err \<Rightarrow> on_catch now filePath err j
      | Inr contractText \<Rightarrow>
          \<lparr>o_job = j, o_set = False, o_pc = AwaitExtractContractData,
           o_calls = [CallExtractContractData contractText]\<rparr>)"
| "resume now filePath AwaitExtractContractData (ExtractContractDataSettled r) j =
     Some (case r of
        Inl err \<Rightarrow> on_catch now filePath err j
      | Inr data \<Rightarrow>
          \<lparr>o_job = j, o_set = False, o_pc = AwaitCreateContractPage data,
           o_calls = [CallCreateContractPage data (targetConfluenceUrl j)]\<rparr>)"
| "resume now filePath (AwaitCreateContractPage data) (CreateContractPageSettled r) j =
     Some (case r of
        Inl err \<Rightarrow> on_catch now filePath err j
      | Inr confluenceUrl \<Rightarrow>
          \<lparr>o_job = j\<lparr>status := Completed, completedAt := Some now,
                      contractData := Some data, confluencePageUrl := Some confluenceUrl\<rparr>,
           o_set = True, o_pc = AwaitUnlink, o_calls = [CallUnlink filePath]\<rparr>)"
| "resume now filePath AwaitUnlink (UnlinkSettled r) j =
     Some \<lparr>o_job = j, o_set = False, o_pc = Returned, o_calls = []\<rparr>"
| "resume now filePath p e j = None"

text \<open>The promise awaited by task \<open>tid\<close> settles; the task runs to its next suspension.\<close>

definition settle :: "nat \<Rightarrow> nat \<Rightarrow> settled \<Rightarrow> state \<Rightarrow> state" where
  "settle now tid e s =
     (if tid < length (tasks s) then
        (let t = tasks s ! tid in
         case resume now (t_filePath t) (t_pc t) e (objects s ! t_job t) of
           None \<Rightarrow> s
         | Some out \<Rightarrow>
             s\<lparr>objects := (objects s)[t_job t := o_job out],
               jobs := (if o_set out then map_set (t_jobId t) (t_job t) (jobs s) else jobs s),
               tasks := (tasks s)[tid := t\<lparr>t_pc := o_pc out, t_calls := t_calls t @ o_calls out\<rparr>]\<rparr>)
      else s)"

text \<open>
  \<^verbatim>\<open>executeProcessing\<close> from its call to its first \<^verbatim>\<open>await\<close>. This stretch runs inside the
  caller, before \<^verbatim>\<open>processContract\<close> returns.
\<close>

definition executeProcessing :: "string \<Rightarrow> string \<Rightarrow> state \<Rightarrow> state" where
  "executeProcessing jobId filePath s =
     (case map_get (jobs s) jobId of
        None \<Rightarrow> s
      | Some r \<Rightarrow>
          s\<lparr>objects := (objects s)[r := (objects s ! r)\<lparr>status := Processing\<rparr>],
            jobs := map_set jobId r (jobs s),
            tasks := tasks s @ [\<lparr>t_jobId = jobId, t_filePath = filePath, t_job = r,
                                 t_pc = AwaitIsValidPDF, t_calls = [CallReadFile filePath]\<rparr>]\<rparr>)"

text \<open>
  \<^verbatim>\<open>processContract\<close> down to \<^verbatim>\<open>this.jobs.set(jobId, job)\<close>. The identifier is the value
  \<^verbatim>\<open>uuidv4()\<close> returned and \<open>now\<close> the value of \<^verbatim>\<open>new Date()\<close>.
\<close>

definition new_job :: "nat \<Rightarrow> string \<Rightarrow> string \<Rightarrow> string option \<Rightarrow> job" where
  "new_job now jobId name target =
     \<lparr>job_id = jobId, filename = name, status = Pending, createdAt = now, completedAt = None,
      error = None, contractData = None, confluencePageUrl = None,
      targetConfluenceUrl = target\<rparr>"

definition register_job :: "nat \<Rightarrow> string \<Rightarrow> string \<Rightarrow> string option \<Rightarrow> state \<Rightarrow> state" where
  "register_job now jobId name target s =
     s\<lparr>objects := objects s @ [new_job now jobId name target],
       jobs := map_set jobId (length (objects s)) (jobs s)\<rparr>"

definition processContract ::
  "nat \<Rightarrow> string \<Rightarrow> string \<Rightarrow> string \<Rightarrow> string option \<Rightarrow> state \<Rightarrow> string \<times> state" where
  "processContract now jobId filePath name target s =
     (jobId, executeProcessing jobId filePath (register_job now jobId name target s))"

text \<open>The two queries, in state-passing style: the value returned and the state afterwards.\<close>

definition getJobStatus :: "string \<Rightarrow> state \<Rightarrow> job option \<times> state" where
  "getJobStatus jobId s = (map_option (\<lambda>r. objects s ! r) (map_get (jobs s) jobId), s)"

definition getAllJobs :: "state \<Rightarrow> job list \<times> state" where
  "getAllJobs s = (map (\<lambda>r. objects s ! r) (map_values (jobs s)), s)"

text \<open>
  What happens to the service over time: a submission, or the settling of the promise a task
  waits for. Each event comes with the clock reading at that moment.
\<close>

datatype event =
    Submit string string string "string option"
  | Settle nat settled

fun step :: "nat \<times> event \<Rightarrow> state \<Rightarrow> state" where
  "step (now, Submit jobId filePath name target) s =
     snd (processContract now jobId filePath name target s)"
| "step (now, Settle tid e) s = settle now tid e s"

definition run :: "(nat \<times> event) list \<Rightarrow> state \<Rightarrow> state" where
  "run evs s = fold step evs s"

section \<open>Running one job against given collaborators\<close>

text \<open>
  Collaborators with a fixed behaviour (mocks): what each call answers. \<open>answer\<close> settles
  the call a task is waiting for, and \<open>drive\<close> lets the task of one job run until it
  returns, one settled promise at a time.
\<close>

record providers =
  p_readFile :: filesystem
  p_extractText :: "string \<Rightarrow> thrown + string"
  p_extractContractData :: "string \<Rightarrow> thrown + json"
  p_createContractPage :: "json \<Rightarrow> string option \<Rightarrow> thrown + string"
  p_unlink :: "string \<Rightarrow> thrown + unit"

fun answer :: "providers \<Rightarrow> call \<Rightarrow> settled" where
  "answer P (CallReadFile filePath) = ReadFileSettled (readFile (p_readFile P) filePath)"
| "answer P (CallExtractText filePath) = ExtractTextSettled (p_extractText P filePath)"
| "answer P (CallExtractContractData contractText) =
     ExtractContractDataSettled (p_extractContractData P contractText)"
| "answer P (CallCreateContractPage data targetUrl) =
     CreateContractPageSettled (p_createContractPage P data targetUrl)"
| "answer P (CallUnlink filePath) = UnlinkSettled (p_unlink P filePath)"

definition pending :: "providers \<Rightarrow> task \<Rightarrow> settled option" where
  "pending P t =
     (if t_pc t = Returned \<or> t_calls t = [] then None
      else Some (answer P (last (t_calls t))))"

fun drive :: "providers \<Rightarrow> nat \<Rightarrow> nat \<Rightarrow> nat \<Rightarrow> state \<Rightarrow> state" where
  "drive P now tid 0 s = s"
| "drive P now tid (Suc n) s =
     (if tid < length (tasks s) then
        (case pending P (tasks s ! tid) of
           None \<Rightarrow> s
         | Some e \<Rightarrow> drive P now tid n (settle now tid e s))
      else s)"

section \<open>The HTTP surface\<close>

record response =
  statusCode :: nat
  res_body :: json

text \<open>\<^verbatim>\<open>res.json(obj)\<close>: properties whose value is \<^verbatim>\<open>undefined\<close> are left out.\<close>

fun defined_props :: "(string \<times> json option) list \<Rightarrow> (string \<times> json) list" where
  "defined_props [] = []"
| "defined_props ((k, None) # props) = defined_props props"
| "defined_props ((k, Some v) # props) = (k, v) # defined_props props"

definition res_json :: "(string \<times> json option) list \<Rightarrow> json" where
  "res_json props = JObj (defined_props props)"

text \<open>Reading property \<open>k\<close> of a value; \<open>None\<close> is \<^verbatim>\<open>undefined\<close>.\<close>

definition field :: "json \<Rightarrow> string \<Rightarrow> json option" where
  "field v k = (case v of JObj props \<Rightarrow> map_of props k | _ \<Rightarrow> None)"

definition has_field :: "json \<Rightarrow> string \<Rightarrow> bool" where
  "has_field v k = (field v k \<noteq> None)"

fun status_name :: "status \<Rightarrow> string" where
  "status_name Pending = ''pending''"
| "status_name Processing = ''processing''"
| "status_name Completed = ''completed''"
| "status_name Failed = ''failed''"

text \<open>
  The multipart request: its file part, if any, with the name of the form field it comes
  under, and the text fields.
\<close>

record upload =
  fieldname :: string
  originalname :: string
  mimetype :: string
  size_bytes :: nat

record request =
  file_part :: "upload option"
  body :: "(string \<times> string) list"

text \<open>\<^verbatim>\<open>req.file\<close> as multer leaves it for the handler.\<close>

record stored_file =
  f_originalname :: string
  f_path :: string

text \<open>The errors that reach an Express error handler.\<close>

datatype http_err =
    PlainError string
  | AppError nat string
  | ZodError string "(string list \<times> string) list"

text \<open>
  \<^verbatim>\<open>upload.single('contract')\<close> as configured in the routes file: the file filter accepts
  only the PDF media type, the size limit is \<open>maxBytes\<close>, and an accepted file is stored at
  a path that the disk storage chooses. A file under another field is refused before the
  filter is asked, and a file that reaches the limit is refused while it is stored. A refusal
  goes to \<^verbatim>\<open>next(err)\<close>.
\<close>

definition upload_single :: "nat \<Rightarrow> string \<Rightarrow> upload option \<Rightarrow> http_err + stored_file option" where
  "upload_single maxBytes storedPath f =
     (case f of
        None \<Rightarrow> Inr None
      | Some u \<Rightarrow>
          if fieldname u \<noteq> ''contract'' then Inl (PlainError ''Unexpected field'')
          else if mimetype u = ''application/pdf'' then
            (if maxBytes \<le> size_bytes u then Inl (PlainError ''File too large'')
             else Inr (Some \<lparr>f_originalname = originalname u, f_path = storedPath\<rparr>))
          else Inl (PlainError ''Only PDF files are allowed''))"

text \<open>The handler of \<^verbatim>\<open>POST /process\<close>. It reads \<^verbatim>\<open>req.file\<close> and nothing else of the request.\<close>

definition post_process :: "nat \<Rightarrow> string \<Rightarrow> stored_file option \<Rightarrow> state \<Rightarrow> response \<times> state" where
  "post_process now uuid file s =
     (case file of
        None \<Rightarrow>
          (\<lparr>statusCode = 400,
            res_body = res_json [(''error'', Some (JStr ''No file uploaded''))]\<rparr>, s)
      | Some f \<Rightarrow>
          (case processContract now uuid (f_path f) (f_originalname f) None s of
             (jobId, s') \<Rightarrow>
               (\<lparr>statusCode = 202,
                 res_body = res_json
                   [(''message'', Some (JStr ''Contract processing started'')),
                    (''jobId'', Some (JStr jobId)),
                    (''statusUrl'', Some (JStr (''/api/contracts/'' @ jobId @ ''/status'')))]\<rparr>,
                s')))"

text \<open>
  The error handler that \<^verbatim>\<open>index.ts\<close> mounts. None of the error classes above has a
  \<^verbatim>\<open>status\<close> property, so \<^verbatim>\<open>err.status || 500\<close> is 500.
\<close>

fun err_message :: "http_err \<Rightarrow> string" where
  "err_message (PlainError m) = m"
| "err_message (AppError c m) = m"
| "err_message (ZodError m issues) = m"

definition err_status :: "http_err \<Rightarrow> nat option" where
  "err_status err = None"

definition index_error_handler :: "http_err \<Rightarrow> response" where
  "index_error_handler err =
     \<lparr>statusCode = (case err_status err of Some c \<Rightarrow> if c \<noteq> 0 then c else 500 | None \<Rightarrow> 500),
      res_body = res_json
        [(''error'', Some (JStr (if err_message err \<noteq> [] then err_message err
                                 else ''Internal server error'')))]\<rparr>"

text \<open>The application as \<^verbatim>\<open>index.ts\<close> wires it, for \<^verbatim>\<open>POST /api/contracts/process\<close>.\<close>

definition app_post_process ::
  "nat \<Rightarrow> string \<Rightarrow> nat \<Rightarrow> string \<Rightarrow> request \<Rightarrow> state \<Rightarrow> response \<times> state" where
  "app_post_process now uuid maxBytes storedPath req s =
     (case upload_single maxBytes storedPath (file_part req) of
        Inl err \<Rightarrow> (index_error_handler err, s)
      | Inr file \<Rightarrow> post_process now uuid file s)"

text \<open>
  \<^verbatim>\<open>errorHandler\<close> of the middleware file, which no route and no application file mounts.
\<close>

fun starts_with :: "string \<Rightarrow> string \<Rightarrow> bool" where
  "starts_with s [] = True"
| "starts_with [] (c # cs) = False"
| "starts_with (x # xs) (c # cs) = (x = c \<and> starts_with xs cs)"

fun str_includes :: "string \<Rightarrow> string \<Rightarrow> bool" where
  "str_includes [] needle = (needle = [])"
| "str_includes (x # xs) needle = (starts_with (x # xs) needle \<or> str_includes xs needle)"

fun join :: "string \<Rightarrow> string list \<Rightarrow> string" where
  "join sep [] = []"
| "join sep [x] = x"
| "join sep (x # y # ys) = x @ sep @ join sep (y # ys)"

definition or_default :: "string option \<Rightarrow> string \<Rightarrow> string" where
  "or_default v d = (case v of None \<Rightarrow> d | Some x \<Rightarrow> if x = [] then d else x)"

definition errorHandler :: "string option \<Rightarrow> string option \<Rightarrow> http_err \<Rightarrow> response" where
  "errorHandler MAX_FILE_SIZE_MB NODE_ENV err =
     (case err of
        ZodError m issues \<Rightarrow>
          \<lparr>statusCode = 400,
           res_body = res_json
             [(''error'', Some (JStr ''Validation error'')),
              (''details'', Some (JArr (map (\<lambda>e. JObj [(''field'', JStr (join ''.'' (fst e))),
                                                         (''message'', JStr (snd e))]) issues)))]\<rparr>
      | AppError code m \<Rightarrow>
          \<lparr>statusCode = code, res_body = res_json [(''error'', Some (JStr m))]\<rparr>
      | PlainError m \<Rightarrow>
          if str_includes m ''File too large'' then
            \<lparr>statusCode = 413,
             res_body = res_json
               [(''error'', Some (JStr ''File too large'')),
                (''details'', Some (JStr (''Maximum file size is ''
                                          @ or_default MAX_FILE_SIZE_MB ''10'' @ ''MB'')))]\<rparr>
          else if str_includes m ''Only PDF files are allowed'' then
            \<lparr>statusCode = 400,
             res_body = res_json
               [(''error'', Some (JStr ''Invalid file type'')),
                (''details'', Some (JStr ''Only PDF files are accepted''))]\<rparr>
          else
            \<lparr>statusCode = 500,
             res_body = res_json
               [(''error'', Some (JStr ''Internal server error'')),
                (''details'', if NODE_ENV = Some ''development'' then Some (JStr m) else None)]\<rparr>)"

text \<open>The handler of \<^verbatim>\<open>GET /:jobId/status\<close>.\<close>

definition get_status :: "string \<Rightarrow> state \<Rightarrow> response" where
  "get_status jobId s =
     (case fst (getJobStatus jobId s) of
        None \<Rightarrow>
          \<lparr>statusCode = 404, res_body = res_json [(''error'', Some (JStr ''Job not found''))]\<rparr>
      | Some j \<Rightarrow>
          \<lparr>statusCode = 200,
           res_body = res_json
             ([(''id'', Some (JStr (job_id j))),
               (''filename'', Some (JStr (filename j))),
               (''status'', Some (JStr (status_name (status j)))),
               (''createdAt'', Some (JNum (int (createdAt j)))),
               (''completedAt'', map_option (\<lambda>t. JNum (int t)) (completedAt j))]
              @ (if status j = Completed then
                   [(''confluencePageUrl'', map_option JStr (confluencePageUrl j)),
                    (''contractData'', contractData j)]
                 else if status j = Failed then [(''error'', map_option JStr (error j))]
                 else []))\<rparr>)"

section \<open>The contract record and its schema\<close>

text \<open>
  The part of zod that \<^verbatim>\<open>ContractDataSchema\<close> uses. \<^verbatim>\<open>parse\<close> returns the validated value
  or fails (\<open>None\<close> for the \<^verbatim>\<open>ZodError\<close>). An object schema reads the keys of its shape
  and drops every other key of the input; a key that is missing is accepted by an optional
  schema only, and is then missing in the output too.
\<close>

datatype schema =
    ZString
  | ZNumber
  | ZEnum "string list"
  | ZArray schema
  | ZObject "(string \<times> schema) list"
  | ZOptional schema

fun sequence :: "'a option list \<Rightarrow> 'a list option" where
  "sequence [] = Some []"
| "sequence (x # xs) =
     (case x of None \<Rightarrow> None | Some y \<Rightarrow> map_option ((#) y) (sequence xs))"

fun zparse :: "schema \<Rightarrow> json \<Rightarrow> json option" where
  "zparse ZString v = (case v of JStr s \<Rightarrow> Some (JStr s) | _ \<Rightarrow> None)"
| "zparse ZNumber v = (case v of JNum n \<Rightarrow> Some (JNum n) | _ \<Rightarrow> None)"
| "zparse (ZEnum options) v =
     (case v of JStr s \<Rightarrow> if s \<in> set options then Some (JStr s) else None | _ \<Rightarrow> None)"
| "zparse (ZArray element) v =
     (case v of
        JArr xs \<Rightarrow> map_option JArr (sequence (map (zparse element) xs))
      | _ \<Rightarrow> None)"
| "zparse (ZObject shape) v =
     (case v of
        JObj props \<Rightarrow>
          map_option res_json
            (sequence
               (map (\<lambda>(k, sch).
                       case map_of props k of
                         None \<Rightarrow> (case sch of ZOptional inner \<Rightarrow> Some (k, None) | _ \<Rightarrow> None)
                       | Some x \<Rightarrow> map_option (\<lambda>y. (k, Some y)) (zparse sch x))
                    shape))
      | _ \<Rightarrow> None)"
| "zparse (ZOptional inner) v = zparse inner v"

definition ContractDataSchema :: schema where
  "ContractDataSchema = ZObject
     [(''contractTitle'', ZString),
      (''contractNumber'', ZOptional ZString),
      (''effectiveDate'', ZString),
      (''expirationDate'', ZOptional ZString),
      (''parties'', ZArray (ZObject
         [(''name'', ZString),
          (''role'', ZEnum [''provider'', ''recipient'', ''other'']),
          (''address'', ZOptional ZString)])),
      (''contractValue'', ZOptional (ZObject
         [(''amount'', ZOptional ZNumber),
          (''currency'', ZOptional ZString)])),
      (''keyTerms'', ZArray ZString),
      (''obligations'', ZArray (ZObject
         [(''party'', ZString),
          (''description'', ZString)])),
      (''renewalTerms'', ZOptional ZString),
      (''terminationClauses'', ZOptional (ZArray ZString)),
      (''governingLaw'', ZOptional ZString),
      (''specialProvisions'', ZOptional (ZArray ZString))]"

section \<open>AIService in demo mode\<close>

text \<open>
  JavaScript string operations. A \<open>string\<close> holds the bytes of the UTF-8 encoding of the
  JavaScript string, while \<^verbatim>\<open>substring\<close> counts UTF-16 code units: a character of one to
  three bytes is one unit and a character of four bytes is two. A cut between the two units of
  such a character leaves a lone surrogate; it is written as U+FFFD, as it is when the string
  is sent out.
\<close>

definition seq_len :: "char \<Rightarrow> nat" where
  "seq_len c =
     (let n = (of_char c :: nat)
      in if n < 0xC0 then 1 else if n < 0xE0 then 2 else if n < 0xF0 then 3 else 4)"

definition replacement :: string where
  "replacement = [CHR 0xEF, CHR 0xBF, CHR 0xBD]"

fun take_units :: "nat \<Rightarrow> string \<Rightarrow> string" where
  "take_units 0 s = []"
| "take_units (Suc n) [] = []"
| "take_units (Suc n) (c # cs) =
     (if seq_len c = 4 then
        (case n of
           0 \<Rightarrow> replacement
         | Suc m \<Rightarrow> c # take 3 cs @ take_units m (drop 3 cs))
      else c # take (seq_len c - 1) cs @ take_units n (drop (seq_len c - 1) cs))"

fun drop_units :: "nat \<Rightarrow> string \<Rightarrow> string" where
  "drop_units 0 s = s"
| "drop_units (Suc n) [] = []"
| "drop_units (Suc n) (c # cs) =
     (if seq_len c = 4 then
        (case n of
           0 \<Rightarrow> replacement @ drop 3 cs
         | Suc m \<Rightarrow> drop_units m (drop 3 cs))
      else drop_units n (drop (seq_len c - 1) cs))"

definition substring :: "string \<Rightarrow> nat \<Rightarrow> nat \<Rightarrow> string" where
  "substring s a b = take_units (max a b - min a b) (drop_units (min a b) s)"

fun str_split :: "char \<Rightarrow> string \<Rightarrow> string list" where
  "str_split sep [] = [[]]"
| "str_split sep (c # cs) =
     (if c = sep then [] # str_split sep cs
      else (case str_split sep cs of
              [] \<Rightarrow> [[c]]
            | piece # pieces \<Rightarrow> (c # piece) # pieces))"

text \<open>
  \<^verbatim>\<open>trim\<close> removes white space and line terminators at both ends: the characters 9 to 13
  and 32, U+00A0, U+1680, U+2000 to U+200A, U+2028, U+2029, U+202F, U+205F, U+3000 and U+FEFF,
  recognised by their encodings of one, two and three bytes. The end is trimmed on the
  reversed string.
\<close>

definition is_space1 :: "char \<Rightarrow> bool" where
  "is_space1 a = (let n = (of_char a :: nat) in (9 \<le> n \<and> n \<le> 13) \<or> n = 32)"

definition is_space2 :: "char \<Rightarrow> char \<Rightarrow> bool" where
  "is_space2 a b = (a = CHR 0xC2 \<and> b = CHR 0xA0)"

definition is_space3 :: "char \<Rightarrow> char \<Rightarrow> char \<Rightarrow> bool" where
  "is_space3 a b c =
     (let n = (of_char c :: nat)
      in (a = CHR 0xE1 \<and> b = CHR 0x9A \<and> n = 0x80)
       \<or> (a = CHR 0xE2 \<and> b = CHR 0x80
            \<and> ((0x80 \<le> n \<and> n \<le> 0x8A) \<or> n = 0xA8 \<or> n = 0xA9 \<or> n = 0xAF))
       \<or> (a = CHR 0xE2 \<and> b = CHR 0x81 \<and> n = 0x9F)
       \<or> (a = CHR 0xE3 \<and> b = CHR 0x80 \<and> n = 0x80)
       \<or> (a = CHR 0xEF \<and> b = CHR 0xBB \<and> n = 0xBF))"

fun trimStart :: "string \<Rightarrow> string" where
  "trimStart (a # b # c # r) =
     (if is_space1 a then trimStart (b # c # r)
      else if is_space2 a b then trimStart (c # r)
      else if is_space3 a b c then trimStart r
      else a # b # c # r)"
| "trimStart [a, b] =
     (if is_space1 a then trimStart [b] else if is_space2 a b then [] else [a, b])"
| "trimStart [a] = (if is_space1 a then [] else [a])"
| "trimStart [] = []"

fun trimEnd_rev :: "string \<Rightarrow> string" where
  "trimEnd_rev (c # b # a # r) =
     (if is_space1 c then trimEnd_rev (b # a # r)
      else if is_space2 b c then trimEnd_rev (a # r)
      else if is_space3 a b c then trimEnd_rev r
      else c # b # a # r)"
| "trimEnd_rev [c, b] =
     (if is_space1 c then trimEnd_rev [b] else if is_space2 b c then [] else [c, b])"
| "trimEnd_rev [c] = (if is_space1 c then [] else [c])"
| "trimEnd_rev [] = []"

definition trim :: "string \<Rightarrow> string" where
  "trim s = rev (trimEnd_rev (rev (trimStart s)))"

text \<open>\<^verbatim>\<open>a || b\<close> on strings: the empty string is falsy.\<close>

definition str_or :: "string \<Rightarrow> string \<Rightarrow> string" where
  "str_or a b = (if a = [] then b else a)"

definition newline :: char where
  "newline = CHR 0x0A"

text \<open>The bullet U+2022 of the summary text, written as its three UTF-8 bytes.\<close>

definition bullet :: string where
  "bullet = [CHR 0xE2, CHR 0x80, CHR 0xA2]"

definition generateTemplateData :: "string \<Rightarrow> string" where
  "generateTemplateData contractText =
     ''DEMO TEMPLATE DATA'' @ [newline, newline]
     @ ''This contract has been parsed into the placeholder template format.'' @ [newline, newline]
     @ ''CONTRACT SECTIONS:'' @ [newline]
     @ ''1. Parties & Basic Information'' @ [newline]
     @ ''2. Terms & Conditions'' @ [newline]
     @ ''3. Financial Obligations'' @ [newline]
     @ ''4. Renewal & Termination'' @ [newline, newline]
     @ ''EXTRACTED TEXT PREVIEW:'' @ [newline]
     @ substring contractText 0 500 @ ''...'' @ [newline, newline]
     @ ''Note: Configure ANTHROPIC_API_KEY to parse contracts into your custom template format.''"

definition demo_summary :: string where
  "demo_summary =
     ''EXECUTIVE SUMMARY (Demo Mode)'' @ [newline, newline]
     @ ''This service agreement establishes a 12-month engagement between Demo Company LLC ''
     @ ''(Provider) and Sample Client Corp (Recipient) with a total contract value of ''
     @ ''$50,000 USD.'' @ [newline, newline]
     @ ''Key Points:'' @ [newline]
     @ bullet @ '' Contract Duration: January 1, 2025 - January 1, 2026'' @ [newline]
     @ bullet @ '' Financial Terms: $50,000 USD total value'' @ [newline]
     @ bullet @ '' Auto-renewal provisions with 30-day notice requirement'' @ [newline]
     @ bullet @ '' Standard termination clauses for both convenience and breach scenarios''
     @ [newline, newline]
     @ ''The agreement includes standard provisions for services delivery, payment terms ''
     @ ''(Net 30), and mutual confidentiality obligations. Governing law is under State of ''
     @ ''Demo jurisdiction.'' @ [newline, newline]
     @ ''Note: This is generated demo data. Configure ANTHROPIC_API_KEY for real AI-powered ''
     @ ''summaries.''"

text \<open>
  \<^verbatim>\<open>contractText.split('\n')[0]?.substring(0, 100) || 'Sample Contract'\<close>: a split always has
  a first piece.
\<close>

definition firstLine :: "string \<Rightarrow> string" where
  "firstLine contractText =
     (case str_split newline contractText of
        [] \<Rightarrow> ''Sample Contract''
      | piece # pieces \<Rightarrow> str_or (substring piece 0 100) ''Sample Contract'')"

definition generateDemoData :: "string \<Rightarrow> json" where
  "generateDemoData contractText = JObj
     [(''contractTitle'', JStr (str_or (trim (firstLine contractText)) ''Demo Service Agreement'')),
      (''contractNumber'', JStr ''DEMO-2025-001''),
      (''effectiveDate'', JStr ''2025-01-01''),
      (''expirationDate'', JStr ''2026-01-01''),
      (''parties'', JArr
         [JObj [(''name'', JStr ''Demo Company LLC''),
                (''role'', JStr ''provider''),
                (''address'', JStr ''123 Demo Street, Demo City, DC 12345'')],
          JObj [(''name'', JStr ''Sample Client Corp''),
                (''role'', JStr ''recipient''),
                (''address'', JStr ''456 Sample Avenue, Sample Town, ST 67890'')]]),
      (''contractValue'', JObj [(''amount'', JNum 50000), (''currency'', JStr ''USD'')]),
      (''keyTerms'', JArr
         [JStr ''Services to be provided as outlined in Exhibit A'',
          JStr ''Payment terms: Net 30 days'',
          JStr ''Confidentiality obligations apply to both parties'',
          JStr (''Contract text preview: '' @ substring contractText 0 150 @ ''...'')]),
      (''obligations'', JArr
         [JObj [(''party'', JStr ''Demo Company LLC''),
                (''description'', JStr ''Provide services as specified in the contract'')],
          JObj [(''party'', JStr ''Sample Client Corp''),
                (''description'', JStr ''Make timely payments and provide necessary access'')]]),
      (''renewalTerms'', JStr ''Auto-renewal for 1 year unless terminated with 30 days notice''),
      (''terminationClauses'', JArr
         [JStr ''Either party may terminate with 30 days written notice'',
          JStr ''Immediate termination allowed for material breach'']),
      (''governingLaw'', JStr ''State of Demo''),
      (''specialProvisions'', JArr
         [JStr ''This is DEMO DATA - no real AI extraction was performed'',
          JStr ''Configure ANTHROPIC_API_KEY in .env for real extraction'']),
      (''aiSummary'', JStr demo_summary),
      (''templateData'', JStr (generateTemplateData contractText))]"

section \<open>ConfluenceService\<close>

record confluence_env =
  CONFLUENCE_BASE_URL :: "string option"
  CONFLUENCE_SPACE_KEY :: "string option"
  CONFLUENCE_PARENT_PAGE_ID :: "string option"
  CONFLUENCE_USER_EMAIL :: "string option"
  CONFLUENCE_API_TOKEN :: "string option"

record confluence_service =
  baseUrl :: string
  spaceKey :: string
  parentPageId :: "string option"
  demoMode :: bool

text \<open>The constructor: demo mode is inferred from missing or placeholder credentials.\<close>

definition new_ConfluenceService :: "confluence_env \<Rightarrow> confluence_service" where
  "new_ConfluenceService env =
     (let base = or_default (CONFLUENCE_BASE_URL env) [];
          space = or_default (CONFLUENCE_SPACE_KEY env) [];
          email = or_default (CONFLUENCE_USER_EMAIL env) [];
          apiToken = or_default (CONFLUENCE_API_TOKEN env) []
      in \<lparr>baseUrl = base, spaceKey = space,
          parentPageId = CONFLUENCE_PARENT_PAGE_ID env,
          demoMode = (base = [] \<or> email = [] \<or> apiToken = [] \<or> space = []
                      \<or> str_includes base ''your-domain''
                      \<or> str_includes email ''your-email'')\<rparr>)"

text \<open>The body sent to \<^verbatim>\<open>POST /content\<close>, and how the request can fail.\<close>

record page_data =
  pd_title :: string
  pd_space :: string
  pd_body :: string
  pd_ancestor :: "string option"

datatype axios_failure = AxiosError "string option" string

text \<open>A string property of the contract record; the record's type makes the title a string.\<close>

definition str_field :: "json \<Rightarrow> string \<Rightarrow> string option" where
  "str_field v k = (case field v k of Some (JStr s) \<Rightarrow> Some s | _ \<Rightarrow> None)"

definition contractTitle :: "json \<Rightarrow> string" where
  "contractTitle data =
     (case str_field data ''contractTitle'' of None \<Rightarrow> ''undefined'' | Some s \<Rightarrow> s)"

definition buildPageTitle :: "json \<Rightarrow> string" where
  "buildPageTitle data =
     contractTitle data
     @ (case str_field data ''contractNumber'' of
          None \<Rightarrow> []
        | Some n \<Rightarrow> if n = [] then [] else '' ('' @ n @ '')'')"

definition demo_prefix :: string where
  "demo_prefix = ''https://demo.confluence.com/wiki/spaces/DEMO/pages/123456/''"

text \<open>
  \<^verbatim>\<open>createContractPage\<close>. The platform's \<^verbatim>\<open>encodeURIComponent\<close> (which raises on a string it
  cannot encode), the HTML templating of \<^verbatim>\<open>buildPageContent\<close> and the remote request are
  parameters. The result comes with the list of remote requests made. An exception inside the
  \<^verbatim>\<open>try\<close> block is rethrown, an axios failure as an \<^verbatim>\<open>Error\<close> with the API's message.
\<close>

definition createContractPage ::
  "confluence_service \<Rightarrow> (string \<Rightarrow> thrown + string) \<Rightarrow> (json \<Rightarrow> string)
     \<Rightarrow> (page_data \<Rightarrow> axios_failure + string) \<Rightarrow> json \<Rightarrow> string option
     \<Rightarrow> (thrown + string) \<times> page_data list" where
  "createContractPage svc encodeURIComponent buildPageContent post data targetUrl =
     (if demoMode svc then
        (case (case targetUrl of None \<Rightarrow> None | Some u \<Rightarrow> if u = [] then None else Some u) of
           Some u \<Rightarrow> (Inr u, [])
         | None \<Rightarrow>
             (case encodeURIComponent (contractTitle data) of
                Inl err \<Rightarrow> (Inl err, [])
              | Inr t \<Rightarrow> (Inr (demo_prefix @ t), [])))
      else
        (let pageData = \<lparr>pd_title = buildPageTitle data, pd_space = spaceKey svc,
                         pd_body = buildPageContent data,
                         pd_ancestor = (case parentPageId svc of
                                          None \<Rightarrow> None
                                        | Some p \<Rightarrow> if p = [] then None else Some p)\<rparr>
         in case post pageData of
              Inl (AxiosError apiMessage m) \<Rightarrow>
                (Inl (ErrorObj (''Confluence API error: '' @ or_default apiMessage m)), [pageData])
            | Inr webui \<Rightarrow> (Inr (baseUrl svc @ ''/wiki'' @ webui), [pageData])))"

section \<open>Views used in the proofs\<close>

text \<open>
  What task \<open>tid\<close> sees of the state, its job object and its own closure, and the run of
  that task alone on this view.
\<close>

definition view :: "nat \<Rightarrow> state \<Rightarrow> job \<times> task" where
  "view tid s = (objects s ! t_job (tasks s ! tid), tasks s ! tid)"

fun run_task :: "providers \<Rightarrow> nat \<Rightarrow> nat \<Rightarrow> job \<times> task \<Rightarrow> job \<times> task" where
  "run_task P now 0 jt = jt"
| "run_task P now (Suc n) (j, t) =
     (case pending P t of
        None \<Rightarrow> (j, t)
      | Some e \<Rightarrow>
          (case resume now (t_filePath t) (t_pc t) e j of
             None \<Rightarrow> (j, t)
           | Some out \<Rightarrow>
               run_task P now n
                 (o_job out, t\<lparr>t_pc := o_pc out, t_calls := t_calls t @ o_calls out\<rparr>)))"

text \<open>The first view of a submitted job: the object as \<^verbatim>\<open>processContract\<close> leaves it.\<close>

definition started :: "nat \<Rightarrow> string \<Rightarrow> string \<Rightarrow> string \<Rightarrow> string option \<Rightarrow> nat \<Rightarrow> job \<times> task" where
  "started now jobId filePath name target r =
     ((new_job now jobId name target)\<lparr>status := Processing\<rparr>,
      \<lparr>t_jobId = jobId, t_filePath = filePath, t_job = r,
       t_pc = AwaitIsValidPDF, t_calls = [CallReadFile filePath]\<rparr>)"

text \<open>The invariant of the store: terminal fields go with the terminal status.\<close>

definition job_inv :: "job \<Rightarrow> bool" where
  "job_inv j =
     ((contractData j \<noteq> None) = (status j = Completed)
      \<and> (confluencePageUrl j \<noteq> None) = (status j = Completed)
      \<and> (error j \<noteq> None) = (status j = Failed))"

definition active :: "pc \<Rightarrow> bool" where
  "active p = (p \<noteq> AwaitUnlink \<and> p \<noteq> Returned)"

definition task_inv :: "state \<Rightarrow> task \<Rightarrow> bool" where
  "task_inv s t =
     (t_job t < length (objects s)
      \<and> (if active (t_pc t) then status (objects s ! t_job t) = Processing else True))"

definition state_inv :: "state \<Rightarrow> bool" where
  "state_inv s =
     (list_all job_inv (objects s)
      \<and> list_all (task_inv s) (tasks s)
      \<and> distinct (map t_job (tasks s))
      \<and> list_all (\<lambda>kr. snd kr < length (objects s)) (jobs s))"

section \<open>Test doubles\<close>

text \<open>
  Collaborators for concrete runs: a file system with one PDF and one text file, a text
  extraction that returns a fixed line, and the AI and Confluence services in demo mode. The
  encoder stands for \<^verbatim>\<open>encodeURIComponent\<close> on titles made of unreserved characters, which
  it leaves as they are.
\<close>

definition demo_service :: confluence_service where
  "demo_service = new_ConfluenceService
     \<lparr>CONFLUENCE_BASE_URL = None, CONFLUENCE_SPACE_KEY = None, CONFLUENCE_PARENT_PAGE_ID = None,
      CONFLUENCE_USER_EMAIL = None, CONFLUENCE_API_TOKEN = None\<rparr>"

definition blank_page :: "json \<Rightarrow> string" where
  "blank_page data = []"

definition post_ok :: "page_data \<Rightarrow> axios_failure + string" where
  "post_ok pageData = Inr ''/spaces/LEGAL/pages/1''"

definition mock_fs :: filesystem where
  "mock_fs filePath =
     (if filePath = ''uploads/contract-1.pdf'' then Inr (pdf_magic @ [0x31, 0x2E, 0x34])
      else if filePath = ''uploads/contract-2.pdf'' then Inr [0x68, 0x65, 0x6C, 0x6C, 0x6F]
      else Inl (ErrorObj ''ENOENT: no such file or directory''))"

definition mock_providers :: providers where
  "mock_providers =
     \<lparr>p_readFile = mock_fs,
      p_extractText = (\<lambda>filePath. Inr ''Lease''),
      p_extractContractData = (\<lambda>contractText. Inr (generateDemoData contractText)),
      p_createContractPage =
        (\<lambda>data targetUrl.
           fst (createContractPage demo_service Inr blank_page post_ok data targetUrl)),
      p_unlink = (\<lambda>filePath. Inr ())\<rparr>"

text \<open>
  The same collaborators with a publishing that fails with a message, and with a text
  extraction that throws something that is not an \<^verbatim>\<open>Error\<close>.
\<close>

definition quota_providers :: providers where
  "quota_providers =
     mock_providers\<lparr>p_createContractPage := (\<lambda>data targetUrl. Inl (ErrorObj ''quota exceeded''))\<rparr>"

definition unreadable_providers :: providers where
  "unreadable_providers = mock_providers\<lparr>p_extractText := (\<lambda>filePath. Inl NonError)\<rparr>"

text \<open>A run with two jobs whose tasks interleave: the first completes, the second fails.\<close>

definition sample_events :: "(nat \<times> event) list" where
  "sample_events =
     [(10, Submit ''job-1'' ''uploads/contract-1.pdf'' ''lease.pdf'' None),
      (11, Submit ''job-2'' ''uploads/contract-2.pdf'' ''notes.pdf'' None),
      (12, Settle 0 (ReadFileSettled (mock_fs ''uploads/contract-1.pdf''))),
      (13, Settle 1 (ReadFileSettled (mock_fs ''uploads/contract-2.pdf''))),
      (14, Settle 0 (ExtractTextSettled (Inr ''Lease''))),
      (15, Settle 0 (ExtractContractDataSettled (Inr (generateDemoData ''Lease'')))),
      (16, Settle 1 (UnlinkSettled (Inr ()))),
      (17, Settle 0 (CreateContractPageSettled (Inr ''https://wiki.example/lease'')))]"

text \<open>
  Two requests, both with the file under field \<^verbatim>\<open>contract\<close>: an upload of a PDF that also
  names a target page in its text fields, and an upload of a text file.
\<close>

definition pdf_request :: request where
  "pdf_request =
     \<lparr>file_part = Some \<lparr>fieldname = ''contract'', originalname = ''lease.pdf'',
                         mimetype = ''application/pdf'', size_bytes = 2048\<rparr>,
      body = [(''targetConfluenceUrl'', ''https://wiki.example/lease''),
              (''publishTarget'', ''https://wiki.example/lease'')]\<rparr>"

definition text_request :: request where
  "text_request =
     \<lparr>file_part = Some \<lparr>fieldname = ''contract'', originalname = ''notes.txt'',
                         mimetype = ''text/plain'', size_bytes = 12\<rparr>,
      body = []\<rparr>"

section \<open>The signature check\<close>

lemma byte_char_inj: "char_of (unat (b::byte)) = char_of (unat (c::byte)) \<longleftrightarrow> b = c"
proof
  assume "char_of (unat b) = char_of (unat c)"
  then have "unat b mod 256 = unat c mod 256"
    by (simp add: char_of_eq_iff take_bit_eq_mod)
  moreover have "unat b < 256" "unat c < 256"
    using unsigned_less [of b] unsigned_less [of c] by simp_all
  ultimately have "unat b = unat c" by simp
  then show "b = c" by (simp add: word_unat_eq_iff)
qed simp

lemma header_magic: "toString buf 0 5 = ''%PDF-'' \<longleftrightarrow> take 5 buf = pdf_magic"
proof -
  have m: "''%PDF-'' = map (\<lambda>b. char_of (unat b)) pdf_magic"
    unfolding pdf_magic_def by code_simp
  have "inj (\<lambda>b::byte. char_of (unat b) :: char)"
    by (rule injI) (simp only: byte_char_inj)
  then show ?thesis
    unfolding toString_def m by (simp add: inj_map_eq_map)
qed

text \<open>
  C8. \<^verbatim>\<open>isValidPDF\<close> always returns a boolean and never raises: whatever the file system
  answers for the path, the result is true exactly when the read succeeded and the first five
  bytes are \<^verbatim>\<open>%PDF-\<close> (25 50 44 46 2D), and false when the read failed.
\<close>

theorem isValidPDF_total:
  "isValidPDF fs filePath =
     Inr (case fs filePath of
            Inl err \<Rightarrow> False
          | Inr dataBuffer \<Rightarrow> take 5 dataBuffer = pdf_magic)"
  by (simp add: isValidPDF_def isValidPDF_settled_def readFile_def header_magic split: sum.split)

section \<open>The run of one task\<close>

lemma map_get_map_set: "map_get (map_set k v m) k = Some v"
  by (induction m) (auto simp: map_get_def)

lemma map_set_idem: "map_set k v (map_set k v m) = map_set k v m"
  by (induction m) auto

lemma processContract_state:
  "snd (processContract now jobId filePath name target s) =
     s\<lparr>objects := objects s @ [fst (started now jobId filePath name target (length (objects s)))],
       jobs := map_set jobId (length (objects s)) (jobs s),
       tasks := tasks s @ [snd (started now jobId filePath name target (length (objects s)))]\<rparr>"
  by (simp add: processContract_def executeProcessing_def register_job_def started_def
      map_get_map_set map_set_idem)

lemma length_settle:
  "length (tasks (settle now tid e s)) = length (tasks s)"
  "length (objects (settle now tid e s)) = length (objects s)"
  by (simp_all add: settle_def Let_def split: option.split)

lemma t_job_settle: "t_job (tasks (settle now tid e s) ! k) = t_job (tasks s ! k)"
  by (cases "k = tid") (simp_all add: settle_def Let_def split: option.split)

lemma view_settle:
  assumes "tid < length (tasks s)" and "t_job (tasks s ! tid) < length (objects s)"
  shows "view tid (settle now tid e s) =
     (case resume now (t_filePath (tasks s ! tid)) (t_pc (tasks s ! tid)) e
             (objects s ! t_job (tasks s ! tid)) of
        None \<Rightarrow> view tid s
      | Some out \<Rightarrow>
          (o_job out, (tasks s ! tid)\<lparr>t_pc := o_pc out,
             t_calls := t_calls (tasks s ! tid) @ o_calls out\<rparr>))"
  using assms by (simp add: view_def settle_def Let_def split: option.split)

lemma drive_stuck:
  "tid < length (tasks s) \<Longrightarrow> pending P (tasks s ! tid) = Some e \<Longrightarrow> settle now tid e s = s
     \<Longrightarrow> drive P now tid n s = s"
  by (induction n) simp_all

lemma view_drive:
  "tid < length (tasks s) \<Longrightarrow> t_job (tasks s ! tid) < length (objects s)
     \<Longrightarrow> view tid (drive P now tid n s) = run_task P now n (view tid s)"
proof (induction n arbitrary: s)
  case 0
  then show ?case by simp
next
  case (Suc n)
  let ?t = "tasks s ! tid"
  let ?j = "objects s ! t_job ?t"
  show ?case
  proof (cases "pending P ?t")
    case None
    with Suc.prems show ?thesis by (simp add: view_def)
  next
    case (Some e)
    show ?thesis
    proof (cases "resume now (t_filePath ?t) (t_pc ?t) e ?j")
      case None
      then have "settle now tid e s = s"
        using Suc.prems by (simp add: settle_def)
      with Suc.prems Some None show ?thesis
        by (simp add: drive_stuck view_def)
    next
      case (Some out)
      have "view tid (drive P now tid n (settle now tid e s))
              = run_task P now n (view tid (settle now tid e s))"
        using Suc.prems by (intro Suc.IH) (simp_all add: length_settle t_job_settle)
      with Suc.prems \<open>pending P ?t = Some e\<close> Some show ?thesis
        by (simp add: view_settle) (simp add: view_def)
    qed
  qed
qed

lemma view_submitted:
  "view (length (tasks s)) (snd (processContract now jobId filePath name target s))
     = started now jobId filePath name target (length (objects s))"
  by (simp add: processContract_state view_def started_def)

lemma view_drive_submitted:
  "view (length (tasks s))
        (drive P fin (length (tasks s)) n (snd (processContract now jobId filePath name target s)))
     = run_task P fin n (started now jobId filePath name target (length (objects s)))"
  by (subst view_drive) (simp_all add: view_submitted, simp_all add: processContract_state started_def)

lemma t_job_drive: "t_job (tasks (drive P now tid n s) ! k) = t_job (tasks s ! k)"
  by (induction n arbitrary: s) (simp_all add: t_job_settle split: option.split)

lemma submitted_run:
  "(objects (drive P fin (length (tasks s)) n (snd (processContract now jobId filePath name target s)))
       ! length (objects s),
    tasks (drive P fin (length (tasks s)) n (snd (processContract now jobId filePath name target s)))
       ! length (tasks s))
   = run_task P fin n (started now jobId filePath name target (length (objects s)))"
proof -
  let ?s1 = "snd (processContract now jobId filePath name target s)"
  let ?s' = "drive P fin (length (tasks s)) n ?s1"
  have "t_job (tasks ?s' ! length (tasks s)) = t_job (tasks ?s1 ! length (tasks s))"
    by (rule t_job_drive)
  also have "\<dots> = length (objects s)"
    by (simp add: processContract_state started_def)
  finally have "view (length (tasks s)) ?s' = (objects ?s' ! length (objects s), tasks ?s' ! length (tasks s))"
    by (simp add: view_def)
  then show ?thesis by (simp add: view_drive_submitted)
qed

lemma run_task_returned: "t_pc t = Returned \<Longrightarrow> run_task P now n (j, t) = (j, t)"
  by (cases n) (simp_all add: pending_def)

lemma five: "5 + k = Suc (Suc (Suc (Suc (Suc k))))" by simp

lemma run_invalid:
  assumes "isValidPDF (p_readFile P) filePath = Inr False"
  shows "run_task P fin (5 + k) (started now jobId filePath name target r) =
     ((new_job now jobId name target)\<lparr>status := Failed, completedAt := Some fin,
         error := Some ''Invalid PDF file''\<rparr>,
      \<lparr>t_jobId = jobId, t_filePath = filePath, t_job = r, t_pc = Returned,
       t_calls = [CallReadFile filePath, CallUnlink filePath]\<rparr>)"
  using assms by (simp add: five started_def pending_def isValidPDF_def on_catch_def)

lemma run_text_fails:
  assumes "isValidPDF (p_readFile P) filePath = Inr True"
    and "p_extractText P filePath = Inl err"
  shows "run_task P fin (5 + k) (started now jobId filePath name target r) =
     ((new_job now jobId name target)\<lparr>status := Failed, completedAt := Some fin,
         error := Some (error_message err)\<rparr>,
      \<lparr>t_jobId = jobId, t_filePath = filePath, t_job = r, t_pc = Returned,
       t_calls = [CallReadFile filePath, CallExtractText filePath, CallUnlink filePath]\<rparr>)"
  using assms by (simp add: five started_def pending_def isValidPDF_def on_catch_def)

lemma run_data_fails:
  assumes "isValidPDF (p_readFile P) filePath = Inr True"
    and "p_extractText P filePath = Inr contractText"
    and "p_extractContractData P contractText = Inl err"
  shows "run_task P fin (5 + k) (started now jobId filePath name target r) =
     ((new_job now jobId name target)\<lparr>status := Failed, completedAt := Some fin,
         error := Some (error_message err)\<rparr>,
      \<lparr>t_jobId = jobId, t_filePath = filePath, t_job = r, t_pc = Returned,
       t_calls = [CallReadFile filePath, CallExtractText filePath,
                  CallExtractContractData contractText, CallUnlink filePath]\<rparr>)"
  using assms by (simp add: five started_def pending_def isValidPDF_def on_catch_def)

lemma run_publish_fails:
  assumes "isValidPDF (p_readFile P) filePath = Inr True"
    and "p_extractText P filePath = Inr contractText"
    and "p_extractContractData P contractText = Inr data"
    and "p_createContractPage P data target = Inl err"
  shows "run_task P fin (5 + k) (started now jobId filePath name target r) =
     ((new_job now jobId name target)\<lparr>status := Failed, completedAt := Some fin,
         error := Some (error_message err)\<rparr>,
      \<lparr>t_jobId = jobId, t_filePath = filePath, t_job = r, t_pc = Returned,
       t_calls = [CallReadFile filePath, CallExtractText filePath,
                  CallExtractContractData contractText,
                  CallCreateContractPage data target, CallUnlink filePath]\<rparr>)"
  using assms by (simp add: five started_def pending_def isValidPDF_def on_catch_def new_job_def run_task_returned)

lemma run_completes:
  assumes "isValidPDF (p_readFile P) filePath = Inr True"
    and "p_extractText P filePath = Inr contractText"
    and "p_extractContractData P contractText = Inr data"
    and "p_createContractPage P data target = Inr url"
  shows "run_task P fin (5 + k) (started now jobId filePath name target r) =
     ((new_job now jobId name target)\<lparr>status := Completed, completedAt := Some fin,
         contractData := Some data, confluencePageUrl := Some url\<rparr>,
      \<lparr>t_jobId = jobId, t_filePath = filePath, t_job = r, t_pc = Returned,
       t_calls = [CallReadFile filePath, CallExtractText filePath,
                  CallExtractContractData contractText,
                  CallCreateContractPage data target, CallUnlink filePath]\<rparr>)"
  using assms by (simp add: five started_def pending_def isValidPDF_def on_catch_def new_job_def run_task_returned)

section \<open>The invariant of the store\<close>

lemma resume_inv:
  assumes "resume now filePath p e j = Some out"
    and "job_inv j" and "active p \<Longrightarrow> status j = Processing"
  shows "job_inv (o_job out) \<and> (active (o_pc out) \<longrightarrow> status (o_job out) = Processing)"
  using assms
  by (cases "(now, filePath, p, e, j)" rule: resume.cases)
     (auto simp: job_inv_def active_def on_catch_def split: sum.splits if_splits)

lemma list_all_map_set:
  "list_all Q m \<Longrightarrow> Q (k, v) \<Longrightarrow> list_all Q (map_set k v m)"
  by (induction m) auto

lemma state_inv_init: "state_inv init"
  by (simp add: state_inv_def init_def)

lemma state_inv_submit:
  assumes "state_inv s"
  shows "state_inv (snd (processContract now jobId filePath name target s))"
proof -
  let ?s' = "snd (processContract now jobId filePath name target s)"
  from assms have jobs_ok: "list_all job_inv (objects s)"
    and tasks_ok: "\<forall>t \<in> set (tasks s). task_inv s t"
    and dist: "distinct (map t_job (tasks s))"
    and reg_ok: "list_all (\<lambda>kr. snd kr < length (objects s)) (jobs s)"
    by (simp_all add: state_inv_def list_all_iff)
  have 1: "list_all job_inv (objects ?s')"
    using jobs_ok by (simp add: processContract_state started_def job_inv_def new_job_def)
  have 2: "list_all (task_inv ?s') (tasks ?s')"
    using tasks_ok
    by (auto simp: processContract_state started_def task_inv_def list_all_iff nth_append)
  have "length (objects s) \<notin> t_job ` set (tasks s)"
    using tasks_ok by (auto simp: task_inv_def)
  then have 3: "distinct (map t_job (tasks ?s'))"
    using dist by (simp add: processContract_state started_def)
  have "list_all (\<lambda>kr. snd kr < Suc (length (objects s))) (jobs s)"
    using reg_ok by (auto simp: list_all_iff)
  then have 4: "list_all (\<lambda>kr. snd kr < length (objects ?s')) (jobs ?s')"
    by (simp add: processContract_state list_all_map_set)
  from 1 2 3 4 show ?thesis by (simp add: state_inv_def)
qed

lemma state_inv_settle:
  assumes "state_inv s"
  shows "state_inv (settle now tid e s)"
proof (cases "tid < length (tasks s)")
  case False
  with assms show ?thesis by (simp add: settle_def)
next
  case True
  let ?t = "tasks s ! tid"
  let ?j = "objects s ! t_job ?t"
  from assms have jobs_ok: "list_all job_inv (objects s)"
    and tasks_ok: "\<forall>t \<in> set (tasks s). task_inv s t"
    and dist: "distinct (map t_job (tasks s))"
    and reg_ok: "list_all (\<lambda>kr. snd kr < length (objects s)) (jobs s)"
    by (simp_all add: state_inv_def list_all_iff)
  from True tasks_ok have t_ok: "task_inv s ?t" by simp
  then have r_ok: "t_job ?t < length (objects s)" by (simp add: task_inv_def)
  show ?thesis
  proof (cases "resume now (t_filePath ?t) (t_pc ?t) e ?j")
    case None
    with assms True show ?thesis by (simp add: settle_def)
  next
    case (Some out)
    let ?t' = "?t\<lparr>t_pc := o_pc out, t_calls := t_calls ?t @ o_calls out\<rparr>"
    let ?s' = "settle now tid e s"
    have s': "?s' = s\<lparr>objects := (objects s)[t_job ?t := o_job out],
               jobs := (if o_set out then map_set (t_jobId ?t) (t_job ?t) (jobs s) else jobs s),
               tasks := (tasks s)[tid := ?t']\<rparr>"
      using True Some by (simp add: settle_def Let_def)
    have "job_inv ?j" using jobs_ok r_ok by (simp add: list_all_length)
    moreover have "active (t_pc ?t) \<Longrightarrow> status ?j = Processing"
      using t_ok by (simp add: task_inv_def)
    ultimately have out_ok: "job_inv (o_job out)"
      "active (o_pc out) \<Longrightarrow> status (o_job out) = Processing"
      using resume_inv [OF Some] by blast+
    have 1: "list_all job_inv (objects ?s')"
      using jobs_ok out_ok(1) unfolding s' list_all_iff
      using set_update_subset_insert [of "objects s" "t_job ?t" "o_job out"] by auto
    have 2: "list_all (task_inv ?s') (tasks ?s')"
      unfolding list_all_length
    proof (intro allI impI)
      fix i assume "i < length (tasks ?s')"
      then have i: "i < length (tasks s)" by (simp add: s')
      show "task_inv ?s' (tasks ?s' ! i)"
      proof (cases "i = tid")
        case True
        then show ?thesis
          using i r_ok out_ok(2) by (simp add: s' task_inv_def)
      next
        case False
        have "t_job (tasks s ! i) \<noteq> t_job ?t"
          using dist i True False by (simp add: distinct_conv_nth)
        moreover have "task_inv s (tasks s ! i)" using tasks_ok i by simp
        ultimately show ?thesis
          using False i by (simp add: s' task_inv_def)
      qed
    qed
    have "map t_job ((tasks s)[tid := ?t']) = map t_job (tasks s)"
      using True by (simp add: map_update list_update_same_conv)
    then have 3: "distinct (map t_job (tasks ?s'))"
      using dist by (simp add: s')
    have 4: "list_all (\<lambda>kr. snd kr < length (objects ?s')) (jobs ?s')"
      using reg_ok r_ok by (simp add: s' list_all_map_set)
    from 1 2 3 4 show ?thesis by (simp add: state_inv_def)
  qed
qed

lemma state_inv_step: "state_inv s \<Longrightarrow> state_inv (step ev s)"
proof -
  assume inv: "state_inv s"
  obtain now e where ev: "ev = (now, e)" by (cases ev)
  show ?thesis
    using inv unfolding ev by (cases e) (simp_all add: state_inv_submit state_inv_settle)
qed

lemma state_inv_run: "state_inv s \<Longrightarrow> state_inv (run evs s)"
  unfolding run_def by (induction evs arbitrary: s) (simp_all add: state_inv_step)

lemma registry_job_inv:
  assumes "state_inv s" and "fst (getJobStatus jobId s) = Some j"
  shows "job_inv j"
proof -
  from assms(2) obtain r where r: "map_of (jobs s) jobId = Some r" and j: "j = objects s ! r"
    by (auto simp: getJobStatus_def map_get_def)
  from r have "(jobId, r) \<in> set (jobs s)" by (rule map_of_SomeD)
  with assms(1) have "r < length (objects s)"
    by (auto simp: state_inv_def list_all_iff)
  with assms(1) j show ?thesis
    by (simp add: state_inv_def list_all_length)
qed

text \<open>
  Tasks do not interfere: in a state the service can reach, a submission and the settling of
  another task's promise leave a task and its job object as they were.
\<close>

lemma foreign_settle_frame:
  assumes "state_inv s" and "tid < length (tasks s)" and "tid' \<noteq> tid"
  shows "view tid (settle now tid' e s) = view tid s"
proof (cases "tid' < length (tasks s)")
  case False
  then show ?thesis by (simp add: settle_def)
next
  case True
  from assms(1) have dist: "distinct (map t_job (tasks s))"
    by (simp add: state_inv_def)
  with True assms(2,3) have "t_job (tasks s ! tid') \<noteq> t_job (tasks s ! tid)"
    by (simp add: distinct_conv_nth)
  with True assms(2,3) show ?thesis
    by (simp add: view_def settle_def Let_def split: option.split)
qed

lemma submit_frame:
  assumes "state_inv s" and "tid < length (tasks s)"
  shows "view tid (snd (processContract now jobId filePath name target s)) = view tid s"
proof -
  from assms have "task_inv s (tasks s ! tid)"
    by (simp add: state_inv_def list_all_length)
  then have "t_job (tasks s ! tid) < length (objects s)"
    by (simp add: task_inv_def)
  with assms(2) show ?thesis
    by (simp add: view_def processContract_state nth_append)
qed

section \<open>The test doubles\<close>

lemma isValidPDF_magic:
  "isValidPDF fs filePath = Inr True \<longleftrightarrow> (\<exists>buf. fs filePath = Inr buf \<and> take 5 buf = pdf_magic)"
  by (auto simp: isValidPDF_def isValidPDF_settled_def readFile_def header_magic split: sum.split)

lemma isValidPDF_bool: "isValidPDF fs filePath \<noteq> Inr True \<longleftrightarrow> isValidPDF fs filePath = Inr False"
  by (auto simp: isValidPDF_def isValidPDF_settled_def split: sum.split)

lemma mock_pdf_valid: "isValidPDF (p_readFile mock_providers) ''uploads/contract-1.pdf'' = Inr True"
  by (simp add: isValidPDF_magic mock_providers_def mock_fs_def pdf_magic_def)

lemma mock_txt_invalid: "isValidPDF (p_readFile mock_providers) ''uploads/contract-2.pdf'' = Inr False"
  by (simp add: isValidPDF_bool [symmetric] isValidPDF_magic mock_providers_def mock_fs_def pdf_magic_def)

lemma demo_service_demo: "demoMode demo_service"
  by (simp add: demo_service_def new_ConfluenceService_def or_default_def)

lemma demo_title: "contractTitle (generateDemoData ''Lease'') = ''Lease''"
  by code_simp

lemma mock_publish:
  "p_createContractPage mock_providers (generateDemoData ''Lease'') None
     = Inr (demo_prefix @ ''Lease'')"
  by (simp add: mock_providers_def createContractPage_def demo_service_demo demo_title)

lemma mock_text: "p_extractText mock_providers filePath = Inr ''Lease''"
  by (simp add: mock_providers_def)

lemma mock_data: "p_extractContractData mock_providers contractText = Inr (generateDemoData contractText)"
  by (simp add: mock_providers_def)

lemma init_lengths: "length (tasks init) = 0" "length (objects init) = 0"
  by (simp_all add: init_def)

lemma quota_pdf_valid: "isValidPDF (p_readFile quota_providers) ''uploads/contract-1.pdf'' = Inr True"
  using mock_pdf_valid by (simp add: quota_providers_def)

lemma quota_text: "p_extractText quota_providers filePath = Inr ''Lease''"
  by (simp add: quota_providers_def mock_text)

lemma quota_data: "p_extractContractData quota_providers contractText = Inr (generateDemoData contractText)"
  by (simp add: quota_providers_def mock_data)

lemma quota_publish: "p_createContractPage quota_providers data targetUrl = Inl (ErrorObj ''quota exceeded'')"
  by (simp add: quota_providers_def)

lemma unreadable_pdf_valid:
  "isValidPDF (p_readFile unreadable_providers) ''uploads/contract-1.pdf'' = Inr True"
  using mock_pdf_valid by (simp add: unreadable_providers_def)

lemma unreadable_text: "p_extractText unreadable_providers filePath = Inl NonError"
  by (simp add: unreadable_providers_def)

section \<open>The order of the stages\<close>

text \<open>
  C1. A job submitted into any state of the service and run to the end against any
  collaborators returns, and has gone through the stages in the order validate, extract text,
  extract structure, publish, each called only when the one before succeeded and with what
  it produced. When a stage raises an \<^verbatim>\<open>Error\<close> with message \<open>m\<close>, the job is
  \<^verbatim>\<open>failed\<close> with \<open>m\<close> as its reason (with \<^verbatim>\<open>Unknown error\<close> when what was thrown is
  not an \<^verbatim>\<open>Error\<close>) and no later stage is called; when all succeed, the job is
  \<^verbatim>\<open>completed\<close> with \<^verbatim>\<open>completedAt\<close>, \<^verbatim>\<open>contractData\<close> and
  \<^verbatim>\<open>confluencePageUrl\<close> set.
\<close>

theorem pipeline_stages_in_order:
  "let s' = drive P fin (length (tasks s)) (5 + k)
              (snd (processContract now jobId filePath name target s));
       j = objects s' ! length (objects s);
       t = tasks s' ! length (tasks s)
   in t_pc t = Returned
    \<and> (isValidPDF (p_readFile P) filePath = Inr False \<longrightarrow>
         status j = Failed \<and> error j = Some ''Invalid PDF file''
         \<and> contractData j = None \<and> confluencePageUrl j = None
         \<and> t_calls t = [CallReadFile filePath, CallUnlink filePath])
    \<and> (isValidPDF (p_readFile P) filePath = Inr True \<longrightarrow>
         (\<forall>err. p_extractText P filePath = Inl err \<longrightarrow>
            status j = Failed \<and> (\<forall>m. err = ErrorObj m \<longrightarrow> error j = Some m)
            \<and> (err = NonError \<longrightarrow> error j = Some ''Unknown error'')
            \<and> contractData j = None \<and> confluencePageUrl j = None
            \<and> t_calls t = [CallReadFile filePath, CallExtractText filePath,
                            CallUnlink filePath])
       \<and> (\<forall>contractText. p_extractText P filePath = Inr contractText \<longrightarrow>
            (\<forall>err. p_extractContractData P contractText = Inl err \<longrightarrow>
               status j = Failed \<and> (\<forall>m. err = ErrorObj m \<longrightarrow> error j = Some m)
            \<and> (err = NonError \<longrightarrow> error j = Some ''Unknown error'')
               \<and> contractData j = None \<and> confluencePageUrl j = None
               \<and> t_calls t = [CallReadFile filePath, CallExtractText filePath,
                               CallExtractContractData contractText, CallUnlink filePath])
          \<and> (\<forall>data. p_extractContractData P contractText = Inr data \<longrightarrow>
               (\<forall>err. p_createContractPage P data target = Inl err \<longrightarrow>
                  status j = Failed \<and> (\<forall>m. err = ErrorObj m \<longrightarrow> error j = Some m)
            \<and> (err = NonError \<longrightarrow> error j = Some ''Unknown error'')
                  \<and> contractData j = None \<and> confluencePageUrl j = None
                  \<and> t_calls t = [CallReadFile filePath, CallExtractText filePath,
                                  CallExtractContractData contractText,
                                  CallCreateContractPage data target, CallUnlink filePath])
             \<and> (\<forall>url. p_createContractPage P data target = Inr url \<longrightarrow>
                  status j = Completed \<and> completedAt j = Some fin
                  \<and> contractData j = Some data \<and> confluencePageUrl j = Some url
                  \<and> error j = None
                  \<and> t_calls t = [CallReadFile filePath, CallExtractText filePath,
                                  CallExtractContractData contractText,
                                  CallCreateContractPage data target, CallUnlink filePath]))))"
proof -
  let ?s' = "drive P fin (length (tasks s)) (5 + k)
               (snd (processContract now jobId filePath name target s))"
  let ?j = "objects ?s' ! length (objects s)"
  let ?t = "tasks ?s' ! length (tasks s)"
  let ?start = "started now jobId filePath name target (length (objects s))"
  have run: "(?j, ?t) = run_task P fin (5 + k) ?start"
    by (rule submitted_run)
  have valid_cases: "isValidPDF (p_readFile P) filePath = Inr False
      \<or> isValidPDF (p_readFile P) filePath = Inr True"
    using isValidPDF_bool by blast
  have invalid_fails: "status ?j = Failed \<and> error ?j = Some ''Invalid PDF file''
         \<and> contractData ?j = None \<and> confluencePageUrl ?j = None
         \<and> t_calls ?t = [CallReadFile filePath, CallUnlink filePath] \<and> t_pc ?t = Returned"
    if "isValidPDF (p_readFile P) filePath = Inr False"
    using run run_invalid [OF that, of fin k now jobId name target "length (objects s)"]
    by (simp add: new_job_def)
  have text_fails: "status ?j = Failed \<and> (\<forall>m. err = ErrorObj m \<longrightarrow> error ?j = Some m)
            \<and> (err = NonError \<longrightarrow> error ?j = Some ''Unknown error'')
            \<and> contractData ?j = None \<and> confluencePageUrl ?j = None
            \<and> t_calls ?t = [CallReadFile filePath, CallExtractText filePath,
                            CallUnlink filePath] \<and> t_pc ?t = Returned"
    if "isValidPDF (p_readFile P) filePath = Inr True" "p_extractText P filePath = Inl err" for err
    using run run_text_fails [OF that, of fin k now jobId name target "length (objects s)"]
    by (cases err) (simp_all add: new_job_def)
  have data_fails: "status ?j = Failed \<and> (\<forall>m. err = ErrorObj m \<longrightarrow> error ?j = Some m)
            \<and> (err = NonError \<longrightarrow> error ?j = Some ''Unknown error'')
               \<and> contractData ?j = None \<and> confluencePageUrl ?j = None
               \<and> t_calls ?t = [CallReadFile filePath, CallExtractText filePath,
                               CallExtractContractData contractText, CallUnlink filePath]
               \<and> t_pc ?t = Returned"
    if "isValidPDF (p_readFile P) filePath = Inr True" "p_extractText P filePath = Inr contractText"
      "p_extractContractData P contractText = Inl err" for contractText err
    using run run_data_fails [OF that, of fin k now jobId name target "length (objects s)"]
    by (cases err) (simp_all add: new_job_def)
  have publish_fails: "status ?j = Failed \<and> (\<forall>m. err = ErrorObj m \<longrightarrow> error ?j = Some m)
            \<and> (err = NonError \<longrightarrow> error ?j = Some ''Unknown error'')
                  \<and> contractData ?j = None \<and> confluencePageUrl ?j = None
                  \<and> t_calls ?t = [CallReadFile filePath, CallExtractText filePath,
                                  CallExtractContractData contractText,
                                  CallCreateContractPage data target, CallUnlink filePath]
                  \<and> t_pc ?t = Returned"
    if "isValidPDF (p_readFile P) filePath = Inr True" "p_extractText P filePath = Inr contractText"
      "p_extractContractData P contractText = Inr data"
      "p_createContractPage P data target = Inl err" for contractText data err
    using run run_publish_fails [OF that, of fin k now jobId name "length (objects s)"]
    by (cases err) (simp_all add: new_job_def)
  have completes: "status ?j = Completed \<and> completedAt ?j = Some fin
                  \<and> contractData ?j = Some data \<and> confluencePageUrl ?j = Some url
                  \<and> error ?j = None
                  \<and> t_calls ?t = [CallReadFile filePath, CallExtractText filePath,
                                  CallExtractContractData contractText,
                                  CallCreateContractPage data target, CallUnlink filePath]
                  \<and> t_pc ?t = Returned"
    if "isValidPDF (p_readFile P) filePath = Inr True" "p_extractText P filePath = Inr contractText"
      "p_extractContractData P contractText = Inr data"
      "p_createContractPage P data target = Inr url" for contractText data url
    using run run_completes [OF that, of fin k now jobId name "length (objects s)"]
    by (simp add: new_job_def)
  consider
      (at_invalid) "isValidPDF (p_readFile P) filePath = Inr False"
    | (at_text) err where "isValidPDF (p_readFile P) filePath = Inr True"
        "p_extractText P filePath = Inl err"
    | (at_data) contractText err where "isValidPDF (p_readFile P) filePath = Inr True"
        "p_extractText P filePath = Inr contractText"
        "p_extractContractData P contractText = Inl err"
    | (at_publish) contractText data err where "isValidPDF (p_readFile P) filePath = Inr True"
        "p_extractText P filePath = Inr contractText"
        "p_extractContractData P contractText = Inr data"
        "p_createContractPage P data target = Inl err"
    | (at_complete) contractText data url where "isValidPDF (p_readFile P) filePath = Inr True"
        "p_extractText P filePath = Inr contractText"
        "p_extractContractData P contractText = Inr data"
        "p_createContractPage P data target = Inr url"
    using valid_cases by (metis sum.exhaust)
  then show ?thesis
  proof cases
    case at_invalid
    with invalid_fails [OF at_invalid] show ?thesis
      by (simp add: Let_def)
  next
    case at_text
    with text_fails [OF at_text] show ?thesis
      by (simp add: Let_def)
  next
    case at_data
    with data_fails [OF at_data] show ?thesis
      by (simp add: Let_def)
  next
    case at_publish
    with publish_fails [OF at_publish] show ?thesis
      by (simp add: Let_def)
  next
    case at_complete
    with completes [OF at_complete] show ?thesis
      by (simp add: Let_def)
  qed
qed

theorem pipeline_stages_in_order_witness:
  "status (objects (drive mock_providers 20 0 5
             (snd (processContract 10 ''job-1'' ''uploads/contract-1.pdf'' ''lease.pdf'' None init))) ! 0)
     = Completed
   \<and> t_calls (tasks (drive mock_providers 20 0 5
             (snd (processContract 10 ''job-1'' ''uploads/contract-1.pdf'' ''lease.pdf'' None init))) ! 0)
     = [CallReadFile ''uploads/contract-1.pdf'', CallExtractText ''uploads/contract-1.pdf'',
        CallExtractContractData ''Lease'',
        CallCreateContractPage (generateDemoData ''Lease'') None,
        CallUnlink ''uploads/contract-1.pdf'']
   \<and> status (objects (drive mock_providers 20 0 5
             (snd (processContract 10 ''job-2'' ''uploads/contract-2.pdf'' ''notes.pdf'' None init))) ! 0)
     = Failed
   \<and> error (objects (drive quota_providers 20 0 5
             (snd (processContract 10 ''job-1'' ''uploads/contract-1.pdf'' ''lease.pdf'' None init))) ! 0)
     = Some ''quota exceeded''
   \<and> error (objects (drive unreadable_providers 20 0 5
             (snd (processContract 10 ''job-1'' ''uploads/contract-1.pdf'' ''lease.pdf'' None init))) ! 0)
     = Some ''Unknown error''"
  using pipeline_stages_in_order [where P = mock_providers and fin = 20 and s = init and k = 0
      and now = 10 and jobId = "''job-1''" and filePath = "''uploads/contract-1.pdf''"
      and name = "''lease.pdf''" and target = None]
    pipeline_stages_in_order [where P = mock_providers and fin = 20 and s = init and k = 0
      and now = 10 and jobId = "''job-2''" and filePath = "''uploads/contract-2.pdf''"
      and name = "''notes.pdf''" and target = None]
    pipeline_stages_in_order [where P = quota_providers and fin = 20 and s = init and k = 0
      and now = 10 and jobId = "''job-1''" and filePath = "''uploads/contract-1.pdf''"
      and name = "''lease.pdf''" and target = None]
    pipeline_stages_in_order [where P = unreadable_providers and fin = 20 and s = init and k = 0
      and now = 10 and jobId = "''job-1''" and filePath = "''uploads/contract-1.pdf''"
      and name = "''lease.pdf''" and target = None]
  by (simp add: Let_def init_lengths mock_pdf_valid mock_txt_invalid mock_text mock_data mock_publish
      quota_pdf_valid quota_text quota_data quota_publish unreadable_pdf_valid unreadable_text)

section \<open>A failed signature check\<close>

lemma length_tasks_submit:
  "length (tasks (snd (processContract now jobId filePath name target s))) = Suc (length (tasks s))"
  by (simp add: processContract_state)

lemma returned_step:
  assumes "tid < length (tasks s)" and "t_pc (tasks s ! tid) = Returned"
  shows "tid < length (tasks (step ev s)) \<and> tasks (step ev s) ! tid = tasks s ! tid"
proof -
  obtain now e where ev: "ev = (now, e)" by (cases ev)
  show ?thesis
  proof (cases e)
    case (Submit jobId filePath name target)
    with assms show ?thesis
      by (simp add: ev processContract_state nth_append)
  next
    case (Settle tid' x)
    show ?thesis
    proof (cases "tid' = tid")
      case True
      with assms show ?thesis
        by (simp add: ev Settle settle_def)
    next
      case False
      with assms show ?thesis
        by (simp add: ev Settle settle_def Let_def split: option.split)
    qed
  qed
qed

lemma returned_run:
  "tid < length (tasks s) \<Longrightarrow> t_pc (tasks s ! tid) = Returned
     \<Longrightarrow> tasks (run evs s) ! tid = tasks s ! tid"
  unfolding run_def
proof (induction evs arbitrary: s)
  case Nil
  then show ?case by simp
next
  case (Cons ev evs)
  from returned_step [OF Cons.prems, of ev]
  have len: "tid < length (tasks (step ev s))" and same: "tasks (step ev s) ! tid = tasks s ! tid"
    by simp_all
  from same Cons.prems have "t_pc (tasks (step ev s) ! tid) = Returned" by simp
  with len have "tasks (fold step evs (step ev s)) ! tid = tasks (step ev s) ! tid"
    by (rule Cons.IH)
  with same show ?case by simp
qed

lemma length_tasks_drive: "length (tasks (drive P now tid n s)) = length (tasks s)"
  by (induction n arbitrary: s) (simp_all add: length_settle split: option.split)

text \<open>
  C4, as the code has it. A job whose upload fails the signature check (the read fails, or the
  first five bytes are not \<^verbatim>\<open>%PDF-\<close>) ends \<^verbatim>\<open>failed\<close> with the reason
  \<^verbatim>\<open>Invalid PDF file\<close>; its task read the file and deleted it and, whatever happens to the
  service afterwards, never calls the text extraction, the structured extraction or the
  publishing.
\<close>

theorem invalid_signature_fails_job:
  assumes "isValidPDF (p_readFile P) filePath = Inr False"
  shows "let s' = drive P fin (length (tasks s)) (5 + k)
                   (snd (processContract now jobId filePath name target s));
             j = objects s' ! length (objects s)
         in status j = Failed \<and> error j = Some ''Invalid PDF file''
          \<and> t_pc (tasks s' ! length (tasks s)) = Returned
          \<and> (\<forall>evs. t_calls (tasks (run evs s') ! length (tasks s))
                      = [CallReadFile filePath, CallUnlink filePath])"
proof -
  let ?s' = "drive P fin (length (tasks s)) (5 + k)
               (snd (processContract now jobId filePath name target s))"
  let ?j = "objects ?s' ! length (objects s)"
  let ?t = "tasks ?s' ! length (tasks s)"
  have "(?j, ?t) = run_task P fin (5 + k) (started now jobId filePath name target (length (objects s)))"
    by (rule submitted_run)
  with run_invalid [OF assms, of fin k now jobId name target "length (objects s)"]
  have j: "status ?j = Failed \<and> error ?j = Some ''Invalid PDF file''"
    and t: "t_pc ?t = Returned" "t_calls ?t = [CallReadFile filePath, CallUnlink filePath]"
    by (simp_all add: new_job_def)
  have "length (tasks s) < length (tasks ?s')"
    by (simp add: length_tasks_drive length_tasks_submit)
  then have "tasks (run evs ?s') ! length (tasks s) = ?t" for evs
    using t(1) by (rule returned_run)
  with j t show ?thesis by (simp add: Let_def)
qed

theorem invalid_signature_fails_job_witness:
  "isValidPDF (p_readFile mock_providers) ''uploads/contract-2.pdf'' = Inr False
   \<and> error (objects (drive mock_providers 20 0 5
         (snd (processContract 10 ''job-2'' ''uploads/contract-2.pdf'' ''notes.pdf'' None init))) ! 0)
       = Some ''Invalid PDF file''
   \<and> t_calls (tasks (run [(30, Settle 0 (ExtractTextSettled (Inr ''late'')))]
         (drive mock_providers 20 0 5
           (snd (processContract 10 ''job-2'' ''uploads/contract-2.pdf'' ''notes.pdf'' None init)))) ! 0)
       = [CallReadFile ''uploads/contract-2.pdf'', CallUnlink ''uploads/contract-2.pdf'']"
  using invalid_signature_fails_job [OF mock_txt_invalid, where fin = 20 and s = init and k = 0
      and now = 10 and jobId = "''job-2''" and name = "''notes.pdf''" and target = None]
  by (simp add: Let_def init_lengths mock_txt_invalid)

theorem invalid_reason_counterexample:
  "isValidPDF (p_readFile mock_providers) ''uploads/contract-2.pdf'' = Inr False
   \<and> error (objects (drive mock_providers 20 0 5
         (snd (processContract 10 ''job-2'' ''uploads/contract-2.pdf'' ''notes.pdf'' None init))) ! 0)
       \<noteq> Some ''invalid document''"
proof -
  let ?s' = "drive mock_providers 20 (length (tasks init)) (5 + 0)
         (snd (processContract 10 ''job-2'' ''uploads/contract-2.pdf'' ''notes.pdf'' None init))"
  have "(objects ?s' ! length (objects init), tasks ?s' ! length (tasks init))
      = run_task mock_providers 20 (5 + 0)
          (started 10 ''job-2'' ''uploads/contract-2.pdf'' ''notes.pdf'' None (length (objects init)))"
    by (rule submitted_run)
  with run_invalid [OF mock_txt_invalid, of 20 0 10 "''job-2''" "''notes.pdf''" None "length (objects init)"]
  have "error (objects ?s' ! length (objects init)) = Some ''Invalid PDF file''"
    by simp
  then show ?thesis
    by (simp add: init_lengths mock_txt_invalid)
qed

section \<open>Submission\<close>

lemma keys_map_set:
  "map fst (map_set k v m) = (if map_get m k = None then map fst m @ [k] else map fst m)"
  by (induction m) (auto simp: map_get_def)

lemma getJobStatus_submitted:
  "fst (getJobStatus jobId (snd (processContract now jobId filePath name target s)))
     = Some ((new_job now jobId name target)\<lparr>status := Processing\<rparr>)"
  by (simp add: getJobStatus_def processContract_state map_get_map_set started_def)

lemma fst_processContract: "fst (processContract now jobId filePath name target s) = jobId"
  by (simp add: processContract_def)

text \<open>
  C3, as the code has it. \<^verbatim>\<open>processContract\<close> returns the identifier it was given by the
  generator. The record is put in the map with status \<^verbatim>\<open>pending\<close>, before any task exists;
  the start of \<^verbatim>\<open>executeProcessing\<close> then runs inside the call, so that at the return the
  record found under the identifier has status \<^verbatim>\<open>processing\<close> and the task waits at its
  first \<^verbatim>\<open>await\<close>, with the read of the upload issued and no stage finished. One job
  object is added, and one key when the identifier is new.
\<close>

theorem submit_registers_job:
  "let res = processContract now jobId filePath name target s;
       created = register_job now jobId name target s;
       s' = snd res
   in fst res = jobId
    \<and> fst (getJobStatus jobId created) = Some (new_job now jobId name target)
    \<and> status (new_job now jobId name target) = Pending
    \<and> tasks created = tasks s
    \<and> fst (getJobStatus (fst res) s') = Some ((new_job now jobId name target)\<lparr>status := Processing\<rparr>)
    \<and> objects s' = objects s @ [(new_job now jobId name target)\<lparr>status := Processing\<rparr>]
    \<and> tasks s' = tasks s @ [\<lparr>t_jobId = jobId, t_filePath = filePath, t_job = length (objects s),
                               t_pc = AwaitIsValidPDF, t_calls = [CallReadFile filePath]\<rparr>]
    \<and> (map_get (jobs s) jobId = None \<longrightarrow> map fst (jobs s') = map fst (jobs s) @ [jobId])
    \<and> (map_get (jobs s) jobId \<noteq> None \<longrightarrow> map fst (jobs s') = map fst (jobs s))"
proof -
  have "fst (getJobStatus jobId (register_job now jobId name target s))
          = Some (new_job now jobId name target)"
    by (simp add: getJobStatus_def register_job_def map_get_map_set)
  moreover have "tasks (register_job now jobId name target s) = tasks s"
    by (simp add: register_job_def)
  moreover have "fst (processContract now jobId filePath name target s) = jobId"
    by (simp add: processContract_def)
  ultimately show ?thesis
    by (simp add: Let_def getJobStatus_submitted)
       (simp add: processContract_state started_def keys_map_set new_job_def)
qed

theorem submit_registers_job_witness:
  "map_get (jobs init) ''job-1'' = None
   \<and> map fst (jobs (snd (processContract 10 ''job-1'' ''uploads/contract-1.pdf'' ''lease.pdf'' None init)))
       = [''job-1'']
   \<and> map_option status (fst (getJobStatus ''job-1''
         (snd (processContract 10 ''job-1'' ''uploads/contract-1.pdf'' ''lease.pdf'' None init))))
       = Some Processing"
  using submit_registers_job [where s = init and now = 10 and jobId = "''job-1''"
      and filePath = "''uploads/contract-1.pdf''" and name = "''lease.pdf''" and target = None]
  by (auto simp add: Let_def init_def map_get_def)

theorem submit_status_counterexample:
  "map_option status (fst (getJobStatus
       (fst (processContract 10 ''job-1'' ''uploads/contract-1.pdf'' ''lease.pdf'' None init))
       (snd (processContract 10 ''job-1'' ''uploads/contract-1.pdf'' ''lease.pdf'' None init))))
     \<noteq> Some Pending"
  by (simp add: fst_processContract getJobStatus_submitted)

section \<open>Queries\<close>

text \<open>
  C9. \<^verbatim>\<open>getJobStatus\<close> and \<^verbatim>\<open>getAllJobs\<close> leave the state of the service, the map and
  every job object, as it was.
\<close>

theorem queries_read_only:
  "snd (getJobStatus jobId s) = s \<and> snd (getAllJobs s) = s"
  by (simp add: getJobStatus_def getAllJobs_def)

section \<open>Terminal fields and status\<close>

lemma map_of_defined_props:
  "map_of (defined_props props) k = (case map_of props k of None \<Rightarrow> None | Some v \<Rightarrow> v)"
  if "distinct (map fst props)"
  using that by (induction props rule: defined_props.induct) (auto split: option.splits simp: rev_image_eqI)

lemma status_fields:
  assumes "fst (getJobStatus jobId s) = Some j"
  shows "has_field (res_body (get_status jobId s)) ''contractData''
           = (status j = Completed \<and> contractData j \<noteq> None)"
    and "has_field (res_body (get_status jobId s)) ''confluencePageUrl''
           = (status j = Completed \<and> confluencePageUrl j \<noteq> None)"
    and "has_field (res_body (get_status jobId s)) ''error''
           = (status j = Failed \<and> error j \<noteq> None)"
    and "statusCode (get_status jobId s) = 200"
  using assms
  by (simp_all add: get_status_def has_field_def field_def res_json_def map_of_defined_props)

lemma state_inv_reachable: "state_inv (run evs init)"
  by (simp add: state_inv_run state_inv_init)

lemma settled_pdf: "isValidPDF_settled (mock_fs ''uploads/contract-1.pdf'') = Inr True"
  by (simp add: isValidPDF_settled_def mock_fs_def header_magic pdf_magic_def)

lemma settled_txt: "isValidPDF_settled (mock_fs ''uploads/contract-2.pdf'') = Inr False"
  by (simp add: isValidPDF_settled_def mock_fs_def header_magic pdf_magic_def)

lemma sample_run:
  "run sample_events init =
     \<lparr>objects =
        [\<lparr>job_id = ''job-1'', filename = ''lease.pdf'', status = Completed, createdAt = 10,
          completedAt = Some 17, error = None, contractData = Some (generateDemoData ''Lease''),
          confluencePageUrl = Some ''https://wiki.example/lease'', targetConfluenceUrl = None\<rparr>,
         \<lparr>job_id = ''job-2'', filename = ''notes.pdf'', status = Failed, createdAt = 11,
          completedAt = Some 13, error = Some ''Invalid PDF file'', contractData = None,
          confluencePageUrl = None, targetConfluenceUrl = None\<rparr>],
      jobs = [(''job-1'', 0), (''job-2'', 1)],
      tasks =
        [\<lparr>t_jobId = ''job-1'', t_filePath = ''uploads/contract-1.pdf'', t_job = 0,
          t_pc = AwaitUnlink,
          t_calls = [CallReadFile ''uploads/contract-1.pdf'',
                     CallExtractText ''uploads/contract-1.pdf'',
                     CallExtractContractData ''Lease'',
                     CallCreateContractPage (generateDemoData ''Lease'') None,
                     CallUnlink ''uploads/contract-1.pdf'']\<rparr>,
         \<lparr>t_jobId = ''job-2'', t_filePath = ''uploads/contract-2.pdf'', t_job = 1,
          t_pc = Returned,
          t_calls = [CallReadFile ''uploads/contract-2.pdf'',
                     CallUnlink ''uploads/contract-2.pdf'']\<rparr>]\<rparr>"
  by (simp add: run_def sample_events_def init_def processContract_state started_def new_job_def
      settle_def settled_pdf settled_txt on_catch_def)

text \<open>
  C2. After any sequence of submissions and settled promises, every job in the map has
  \<^verbatim>\<open>contractData\<close> and \<^verbatim>\<open>confluencePageUrl\<close> exactly when its status is
  \<^verbatim>\<open>completed\<close> and \<^verbatim>\<open>error\<close> exactly when its status is \<^verbatim>\<open>failed\<close>, never both
  sides; the body of the status response has the same fields under the same conditions.
\<close>

theorem terminal_fields_match_status:
  "(\<forall>j \<in> set (fst (getAllJobs (run evs init))).
       ((contractData j \<noteq> None) = (status j = Completed))
     \<and> ((confluencePageUrl j \<noteq> None) = (status j = Completed))
     \<and> ((error j \<noteq> None) = (status j = Failed))
     \<and> \<not> ((contractData j \<noteq> None \<or> confluencePageUrl j \<noteq> None) \<and> error j \<noteq> None))
   \<and> (\<forall>j. fst (getJobStatus jobId (run evs init)) = Some j \<longrightarrow>
       ((contractData j \<noteq> None) = (status j = Completed))
     \<and> ((confluencePageUrl j \<noteq> None) = (status j = Completed))
     \<and> ((error j \<noteq> None) = (status j = Failed))
     \<and> \<not> ((contractData j \<noteq> None \<or> confluencePageUrl j \<noteq> None) \<and> error j \<noteq> None)
     \<and> has_field (res_body (get_status jobId (run evs init))) ''contractData''
           = (status j = Completed)
     \<and> has_field (res_body (get_status jobId (run evs init))) ''confluencePageUrl''
           = (status j = Completed)
     \<and> has_field (res_body (get_status jobId (run evs init))) ''error''
           = (status j = Failed))"
proof (intro conjI ballI allI impI)
  let ?s = "run evs init"
  have inv: "state_inv ?s" by (rule state_inv_reachable)
  {
    fix j assume "j \<in> set (fst (getAllJobs ?s))"
    then obtain r where "r \<in> snd ` set (jobs ?s)" and j: "j = objects ?s ! r"
      by (auto simp: getAllJobs_def map_values_def)
    with inv have "r < length (objects ?s)"
      by (auto simp: state_inv_def list_all_iff)
    with inv j have "job_inv j"
      by (simp add: state_inv_def list_all_length)
  } note all = this
  {
    fix j assume "fst (getJobStatus jobId ?s) = Some j"
    with inv have "job_inv j" by (rule registry_job_inv)
  } note one = this
  show "(contractData j \<noteq> None) = (status j = Completed)"
    if "j \<in> set (fst (getAllJobs ?s))" for j using all [OF that] by (simp add: job_inv_def)
  show "(confluencePageUrl j \<noteq> None) = (status j = Completed)"
    if "j \<in> set (fst (getAllJobs ?s))" for j using all [OF that] by (simp add: job_inv_def)
  show "(error j \<noteq> None) = (status j = Failed)"
    if "j \<in> set (fst (getAllJobs ?s))" for j using all [OF that] by (simp add: job_inv_def)
  show "\<not> ((contractData j \<noteq> None \<or> confluencePageUrl j \<noteq> None) \<and> error j \<noteq> None)"
    if "j \<in> set (fst (getAllJobs ?s))" for j using all [OF that] by (auto simp: job_inv_def)
  show "(contractData j \<noteq> None) = (status j = Completed)"
    if "fst (getJobStatus jobId ?s) = Some j" for j using one [OF that] by (simp add: job_inv_def)
  show "(confluencePageUrl j \<noteq> None) = (status j = Completed)"
    if "fst (getJobStatus jobId ?s) = Some j" for j using one [OF that] by (simp add: job_inv_def)
  show "(error j \<noteq> None) = (status j = Failed)"
    if "fst (getJobStatus jobId ?s) = Some j" for j using one [OF that] by (simp add: job_inv_def)
  show "\<not> ((contractData j \<noteq> None \<or> confluencePageUrl j \<noteq> None) \<and> error j \<noteq> None)"
    if "fst (getJobStatus jobId ?s) = Some j" for j using one [OF that] by (auto simp: job_inv_def)
  show "has_field (res_body (get_status jobId ?s)) ''contractData'' = (status j = Completed)"
    if "fst (getJobStatus jobId ?s) = Some j" for j
    using one [OF that] status_fields(1) [OF that] by (auto simp: job_inv_def)
  show "has_field (res_body (get_status jobId ?s)) ''confluencePageUrl'' = (status j = Completed)"
    if "fst (getJobStatus jobId ?s) = Some j" for j
    using one [OF that] status_fields(2) [OF that] by (auto simp: job_inv_def)
  show "has_field (res_body (get_status jobId ?s)) ''error'' = (status j = Failed)"
    if "fst (getJobStatus jobId ?s) = Some j" for j
    using one [OF that] status_fields(3) [OF that] by (auto simp: job_inv_def)
qed

theorem terminal_fields_match_status_witness:
  "map_option status (fst (getJobStatus ''job-1'' (run sample_events init))) = Some Completed
   \<and> has_field (res_body (get_status ''job-1'' (run sample_events init))) ''contractData''
   \<and> map_option status (fst (getJobStatus ''job-2'' (run sample_events init))) = Some Failed
   \<and> has_field (res_body (get_status ''job-2'' (run sample_events init))) ''error''
   \<and> \<not> has_field (res_body (get_status ''job-2'' (run sample_events init))) ''contractData''"
  using terminal_fields_match_status [of sample_events "''job-1''"]
    terminal_fields_match_status [of sample_events "''job-2''"]
  by (simp add: sample_run getJobStatus_def map_get_def)

section \<open>The upload endpoint\<close>

lemma post_valid_file:
  assumes "file_part req = Some u" and "fieldname u = ''contract''"
    and "mimetype u = ''application/pdf''" and "size_bytes u < maxBytes"
  shows "app_post_process now uuid maxBytes storedPath req s =
     (\<lparr>statusCode = 202,
       res_body = JObj [(''message'', JStr ''Contract processing started''),
                        (''jobId'', JStr uuid),
                        (''statusUrl'', JStr (''/api/contracts/'' @ uuid @ ''/status''))]\<rparr>,
      snd (processContract now uuid storedPath (originalname u) None s))"
  using assms
  by (simp add: app_post_process_def upload_single_def post_process_def res_json_def
      processContract_def)

lemma post_no_file:
  assumes "file_part req = None"
  shows "app_post_process now uuid maxBytes storedPath req s =
     (\<lparr>statusCode = 400, res_body = JObj [(''error'', JStr ''No file uploaded'')]\<rparr>, s)"
  using assms
  by (simp add: app_post_process_def upload_single_def post_process_def res_json_def)

lemma post_wrong_type:
  assumes "file_part req = Some u" and "fieldname u = ''contract''"
    and "mimetype u \<noteq> ''application/pdf''"
  shows "app_post_process now uuid maxBytes storedPath req s =
     (\<lparr>statusCode = 500, res_body = JObj [(''error'', JStr ''Only PDF files are allowed'')]\<rparr>, s)"
  using assms
  by (simp add: app_post_process_def upload_single_def index_error_handler_def err_status_def
      res_json_def)

text \<open>
  C6 at a failing input. An upload of type \<^verbatim>\<open>text/plain\<close> is refused by the file filter;
  the error goes to the handler mounted in \<^verbatim>\<open>index.ts\<close>, which answers 500, and no job is
  created. The handler \<^verbatim>\<open>errorHandler\<close> would answer 400 for the same error. (A request
  without a file gets 400 and one with a PDF gets 202, as the two lemmas above show.)
\<close>

theorem wrong_type_gets_500:
  "app_post_process 10 ''job-1'' 10485760 ''uploads/contract-3.txt'' text_request init
     = (\<lparr>statusCode = 500,
         res_body = JObj [(''error'', JStr ''Only PDF files are allowed'')]\<rparr>, init)
   \<and> statusCode (errorHandler None None (PlainError ''Only PDF files are allowed'')) = 400"
  by (simp add: post_wrong_type [where u = "\<lparr>fieldname = ''contract'', originalname = ''notes.txt'',
        mimetype = ''text/plain'', size_bytes = 12\<rparr>"] text_request_def errorHandler_def)

text \<open>
  C5 at a failing input. The upload names a target page in its text fields; the handler calls
  \<^verbatim>\<open>processContract\<close> with the path and the file name only, so the job has no
  \<^verbatim>\<open>targetConfluenceUrl\<close> and the publishing call gets none.
\<close>

theorem post_drops_publish_target:
  "map_of (body pdf_request) ''targetConfluenceUrl'' = Some ''https://wiki.example/lease''
   \<and> map_option targetConfluenceUrl
        (fst (getJobStatus ''job-1''
          (snd (app_post_process 10 ''job-1'' 10485760 ''uploads/contract-1.pdf'' pdf_request init))))
       = Some None
   \<and> t_calls (tasks (drive mock_providers 20 0 5
        (snd (app_post_process 10 ''job-1'' 10485760 ''uploads/contract-1.pdf'' pdf_request init))) ! 0)
       = [CallReadFile ''uploads/contract-1.pdf'', CallExtractText ''uploads/contract-1.pdf'',
          CallExtractContractData ''Lease'',
          CallCreateContractPage (generateDemoData ''Lease'') None,
          CallUnlink ''uploads/contract-1.pdf'']"
proof -
  let ?s1 = "snd (processContract 10 ''job-1'' ''uploads/contract-1.pdf'' ''lease.pdf'' None init)"
  have post: "snd (app_post_process 10 ''job-1'' 10485760 ''uploads/contract-1.pdf'' pdf_request init)
      = ?s1"
    by (simp add: post_valid_file [where u = "\<lparr>fieldname = ''contract'',
          originalname = ''lease.pdf'', mimetype = ''application/pdf'', size_bytes = 2048\<rparr>"]
        pdf_request_def)
  let ?s' = "drive mock_providers 20 (length (tasks init)) (5 + 0) ?s1"
  have "(objects ?s' ! length (objects init), tasks ?s' ! length (tasks init))
      = run_task mock_providers 20 (5 + 0)
          (started 10 ''job-1'' ''uploads/contract-1.pdf'' ''lease.pdf'' None (length (objects init)))"
    by (rule submitted_run)
  with run_completes [OF mock_pdf_valid mock_text mock_data mock_publish,
      of 20 0 10 "''job-1''" "''lease.pdf''" "length (objects init)"]
  have calls: "t_calls (tasks ?s' ! length (tasks init))
       = [CallReadFile ''uploads/contract-1.pdf'', CallExtractText ''uploads/contract-1.pdf'',
          CallExtractContractData ''Lease'',
          CallCreateContractPage (generateDemoData ''Lease'') None,
          CallUnlink ''uploads/contract-1.pdf'']"
    by simp
  have "map_of (body pdf_request) ''targetConfluenceUrl'' = Some ''https://wiki.example/lease''"
    by (simp add: pdf_request_def)
  with calls show ?thesis
    by (simp add: post init_lengths getJobStatus_submitted new_job_def)
qed

section \<open>Demo data and the schema\<close>

lemma demo_data_parse:
  "zparse ContractDataSchema (generateDemoData contractText) =
     Some (JObj (take 12 (case generateDemoData contractText of JObj props \<Rightarrow> props | _ \<Rightarrow> [])))"
  by (simp add: ContractDataSchema_def generateDemoData_def res_json_def)

text \<open>
  C7. For every input text the record that \<^verbatim>\<open>generateDemoData\<close> builds passes
  \<^verbatim>\<open>ContractDataSchema\<close>; the validated record keeps the contract number
  \<^verbatim>\<open>DEMO-2025-001\<close> and the special provisions that say it is demo data, and the summary of
  the record built starts with a demo-mode heading.
\<close>

theorem demo_data_validates:
  "\<exists>record. zparse ContractDataSchema (generateDemoData contractText) = Some record
     \<and> field record ''contractNumber'' = Some (JStr ''DEMO-2025-001'')
     \<and> field record ''specialProvisions'' =
         Some (JArr [JStr ''This is DEMO DATA - no real AI extraction was performed'',
                     JStr ''Configure ANTHROPIC_API_KEY in .env for real extraction''])
     \<and> field (generateDemoData contractText) ''specialProvisions'' = field record ''specialProvisions''
     \<and> field (generateDemoData contractText) ''aiSummary'' = Some (JStr demo_summary)
     \<and> starts_with demo_summary ''EXECUTIVE SUMMARY (Demo Mode)''"
  by (simp add: demo_data_parse) (simp add: generateDemoData_def field_def demo_summary_def)

section \<open>The demo page locator\<close>




end
